theory Spec2Isabelle
  imports Main "HOL-Library.Word" "HOL-Library.AList"
begin

section \<open>Errors\<close>

text \<open>
  Go's \<^verbatim>\<open>error\<close> values as they occur in \<^verbatim>\<open>api.go\<close>: the package's own
  \<^verbatim>\<open>*TimeoutError\<close> (carried with its message), the two sentinel errors of package
  \<^verbatim>\<open>context\<close>, any other leaf error, and the error built by
  \<^verbatim>\<open>fmt.Errorf("...: %w", err)\<close>, which keeps the text before the verb and the
  wrapped cause.
\<close>

type_synonym bytes = string

datatype error =
    TimeoutError string
  | Canceled
  | DeadlineExceeded
  | ErrorString string
  | WrapError string error

fun Error :: "error \<Rightarrow> string" where
  "Error (TimeoutError s) = s"
| "Error Canceled = ''context canceled''"
| "Error DeadlineExceeded = ''context deadline exceeded''"
| "Error (ErrorString s) = s"
| "Error (WrapError p e) = p @ Error e"

text \<open>\<^verbatim>\<open>errors.Is(err, target)\<close> for a sentinel target: walks the chain of wrapped causes.\<close>

fun errors_Is :: "error \<Rightarrow> error \<Rightarrow> bool" where
  "errors_Is (WrapError p e) target = (WrapError p e = target \<or> errors_Is e target)"
| "errors_Is err target = (err = target)"

text \<open>\<^verbatim>\<open>errors.As(err, &te)\<close> with \<^verbatim>\<open>te *TimeoutError\<close>.\<close>

fun errors_As_TimeoutError :: "error \<Rightarrow> bool" where
  "errors_As_TimeoutError (TimeoutError s) = True"
| "errors_As_TimeoutError (WrapError p e) = errors_As_TimeoutError e"
| "errors_As_TimeoutError err = False"

section \<open>Decimal formatting\<close>

fun digits :: "nat \<Rightarrow> string" where
  "digits n = (if n < 10 then [char_of (48 + n)] else digits (n div 10) @ [char_of (48 + n mod 10)])"

declare digits.simps [simp del]

text \<open>\<^verbatim>\<open>strconv.Itoa\<close>, \<^verbatim>\<open>strconv.FormatInt(_, 10)\<close> and the verb \<^verbatim>\<open>%d\<close>.\<close>

definition Itoa :: "int \<Rightarrow> string" where
  "Itoa i = (if i < 0 then CHR ''-'' # digits (nat (- i)) else digits (nat i))"

section \<open>Package schemes: the data the decoder touches\<close>

text \<open>
  The struct declarations of package \<^verbatim>\<open>schemes\<close> are not part of the sources at hand.
  The records below carry the fields that \<^verbatim>\<open>api.go\<close> and \<^verbatim>\<open>debugs.go\<close> read or
  write. A nil slice of resolved attachments and an empty one are both \<open>[]\<close> (the code
  only appends to it); the raw attachment list is an \<open>option\<close>, because the code tests
  it against nil: \<open>None\<close> is the nil slice, \<open>Some []\<close> the empty non-nil one.
\<close>

record Update =
  UpdateType :: string
  DebugRaw :: string

record Attachment =
  Type :: string

datatype AttachmentInterface =
    BaseAttachment Attachment
  | AudioAttachment Attachment
  | ContactAttachment Attachment
  | FileAttachment Attachment
  | PhotoAttachment Attachment
  | InlineKeyboardAttachment Attachment
  | LocationAttachment Attachment
  | ShareAttachment Attachment
  | StickerAttachment Attachment
  | VideoAttachment Attachment

record MessageBody =
  Attachments :: "AttachmentInterface list"
  RawAttachments :: "bytes list option"

record LinkedMessage =
  Message :: MessageBody

record Message =
  Body :: MessageBody
  Link :: "LinkedMessage option"

datatype UpdateInterface =
    MessageCallbackUpdate Update
  | MessageCreatedUpdate Update Message
  | MessageRemovedUpdate Update
  | MessageEditedUpdate Update Message
  | BotAddedToChatUpdate Update
  | BotRemovedFromChatUpdate Update
  | UserAddedToChatUpdate Update
  | UserRemovedFromChatUpdate Update
  | BotStartedUpdate Update
  | ChatTitleChangedUpdate Update

text \<open>A page as the fetch endpoint returns it; a nil list of updates is \<open>[]\<close>, a nil marker \<open>None\<close>.\<close>

record UpdateList =
  Updates :: "bytes list"
  Marker :: "int option"

record schemes_Error =
  Code :: string

text \<open>
  The discriminator constants of package \<^verbatim>\<open>schemes\<close> (string constants whose values
  are declared outside the sources at hand) are parameters of the model.
\<close>

record update_types =
  TypeMessageCallback :: string
  TypeMessageCreated :: string
  TypeMessageRemoved :: string
  TypeMessageEdited :: string
  TypeBotAdded :: string
  TypeBotRemoved :: string
  TypeUserAdded :: string
  TypeUserRemoved :: string
  TypeBotStarted :: string
  TypeChatTitleChanged :: string

record attachment_types =
  AttachmentAudio :: string
  AttachmentContact :: string
  AttachmentFile :: string
  AttachmentImage :: string
  AttachmentKeyboard :: string
  AttachmentLocation :: string
  AttachmentShare :: string
  AttachmentSticker :: string
  AttachmentVideo :: string

text \<open>
  Package \<^verbatim>\<open>encoding/json\<close> is a parameter as well: one function for each target
  type that the code unmarshals into. \<open>Unmarshal_UpdateInterface data u\<close> is
  \<^verbatim>\<open>json.Unmarshal(data, update)\<close> for the freshly constructed variant \<open>u\<close>,
  \<open>Decode_Error\<close> is \<^verbatim>\<open>json.NewDecoder(body).Decode(result)\<close> on the bytes the body
  delivers.
\<close>

record json =
  Unmarshal_Update :: "bytes \<Rightarrow> error + Update"
  Unmarshal_UpdateInterface :: "bytes \<Rightarrow> UpdateInterface \<Rightarrow> error + UpdateInterface"
  Unmarshal_Attachment :: "bytes \<Rightarrow> error + Attachment"
  Unmarshal_AttachmentInterface :: "bytes \<Rightarrow> AttachmentInterface \<Rightarrow> error + AttachmentInterface"
  Unmarshal_UpdateList :: "bytes \<Rightarrow> error + UpdateList"
  Decode_Error :: "bytes \<Rightarrow> error + schemes_Error"

text \<open>
  The constants of package \<^verbatim>\<open>maxbot\<close> that \<^verbatim>\<open>api.go\<close> and \<^verbatim>\<open>debugs.go\<close> use and
  that are declared in a file outside the sources at hand.
\<close>

record constants =
  maxRetries :: int
  maxUpdatesLimit :: int
  paramLimit :: string
  paramTimeout :: string
  paramMarker :: string
  paramTypes :: string
  paramChatID :: string
  paramUserID :: string
  pathUpdates :: string
  pathMessages :: string

text \<open>
  \<open>Seconds\<close> stands for \<^verbatim>\<open>int(d.Seconds())\<close>, which package \<^verbatim>\<open>time\<close> computes in
  floating point.
\<close>

record deps =
  upd :: update_types
  att :: attachment_types
  js :: json
  cs :: constants
  Seconds :: "64 word \<Rightarrow> int"

text \<open>
  Modelled from the spec: the accessors \<^verbatim>\<open>GetUpdateType\<close> and
  \<^verbatim>\<open>GetAttachmentType\<close> of package \<^verbatim>\<open>schemes\<close> are not in the sources; the spec
  calls the value they return the discriminator of the decoded envelope.
\<close>

definition GetUpdateType :: "Update \<Rightarrow> string" where
  "GetUpdateType u = UpdateType u"

definition GetAttachmentType :: "Attachment \<Rightarrow> string" where
  "GetAttachmentType a = Type a"

section \<open>The variant decoder (api.go)\<close>

record Api =
  timeout :: "64 word"
  pause :: "64 word"
  debug :: bool

definition zeroUpdate :: "string \<Rightarrow> Update" where
  "zeroUpdate debugRaw = \<lparr>UpdateType = [], DebugRaw = debugRaw\<rparr>"

definition zeroMessage :: Message where
  "zeroMessage = \<lparr>Body = \<lparr>Attachments = [], RawAttachments = None\<rparr>, Link = None\<rparr>"

text \<open>The \<^verbatim>\<open>switch\<close> of \<^verbatim>\<open>getUpdateType\<close>: the first matching case wins; \<open>None\<close> is the nil constructor.\<close>

definition getUpdateType :: "update_types \<Rightarrow> string \<Rightarrow> (string \<Rightarrow> UpdateInterface) option" where
  "getUpdateType c updateType =
     (if updateType = TypeMessageCallback c then Some (\<lambda>debugRaw. MessageCallbackUpdate (zeroUpdate debugRaw))
      else if updateType = TypeMessageCreated c then Some (\<lambda>debugRaw. MessageCreatedUpdate (zeroUpdate debugRaw) zeroMessage)
      else if updateType = TypeMessageRemoved c then Some (\<lambda>debugRaw. MessageRemovedUpdate (zeroUpdate debugRaw))
      else if updateType = TypeMessageEdited c then Some (\<lambda>debugRaw. MessageEditedUpdate (zeroUpdate debugRaw) zeroMessage)
      else if updateType = TypeBotAdded c then Some (\<lambda>debugRaw. BotAddedToChatUpdate (zeroUpdate debugRaw))
      else if updateType = TypeBotRemoved c then Some (\<lambda>debugRaw. BotRemovedFromChatUpdate (zeroUpdate debugRaw))
      else if updateType = TypeUserAdded c then Some (\<lambda>debugRaw. UserAddedToChatUpdate (zeroUpdate debugRaw))
      else if updateType = TypeUserRemoved c then Some (\<lambda>debugRaw. UserRemovedFromChatUpdate (zeroUpdate debugRaw))
      else if updateType = TypeBotStarted c then Some (\<lambda>debugRaw. BotStartedUpdate (zeroUpdate debugRaw))
      else if updateType = TypeChatTitleChanged c then Some (\<lambda>debugRaw. ChatTitleChangedUpdate (zeroUpdate debugRaw))
      else None)"

definition zeroAttachment :: Attachment where
  "zeroAttachment = \<lparr>Type = []\<rparr>"

definition getAttachmentType :: "attachment_types \<Rightarrow> string \<Rightarrow> AttachmentInterface option" where
  "getAttachmentType c attachmentType =
     (if attachmentType = AttachmentAudio c then Some (AudioAttachment zeroAttachment)
      else if attachmentType = AttachmentContact c then Some (ContactAttachment zeroAttachment)
      else if attachmentType = AttachmentFile c then Some (FileAttachment zeroAttachment)
      else if attachmentType = AttachmentImage c then Some (PhotoAttachment zeroAttachment)
      else if attachmentType = AttachmentKeyboard c then Some (InlineKeyboardAttachment zeroAttachment)
      else if attachmentType = AttachmentLocation c then Some (LocationAttachment zeroAttachment)
      else if attachmentType = AttachmentShare c then Some (ShareAttachment zeroAttachment)
      else if attachmentType = AttachmentSticker c then Some (StickerAttachment zeroAttachment)
      else if attachmentType = AttachmentVideo c then Some (VideoAttachment zeroAttachment)
      else None)"

definition bytesToProperAttachment :: "deps \<Rightarrow> bytes \<Rightarrow> error + AttachmentInterface" where
  "bytesToProperAttachment d data =
     (case Unmarshal_Attachment (js d) data of
        Inl err \<Rightarrow> Inl (WrapError ''failed to unmarshal base attachment: '' err)
      | Inr baseAttachment \<Rightarrow>
          (let attachmentType = GetAttachmentType baseAttachment in
           case getAttachmentType (att d) attachmentType of
             None \<Rightarrow> Inr (BaseAttachment baseAttachment)
           | Some attachment \<Rightarrow>
               (case Unmarshal_AttachmentInterface (js d) data attachment of
                  Inl err \<Rightarrow> Inl (WrapError (''failed to unmarshal attachment of type '' @ attachmentType @ '': '') err)
                | Inr attachment' \<Rightarrow> Inr attachment')))"

text \<open>The loop of \<^verbatim>\<open>convertRawAttachments\<close>, with the slice \<open>result\<close> built so far.\<close>

fun convertRawAttachments_loop ::
  "deps \<Rightarrow> AttachmentInterface list \<Rightarrow> bytes list \<Rightarrow> error + AttachmentInterface list" where
  "convertRawAttachments_loop d result [] = Inr result"
| "convertRawAttachments_loop d result (rawAttachment # rest) =
     (case bytesToProperAttachment d rawAttachment of
        Inl err \<Rightarrow> Inl (WrapError ''failed to process attachment: '' err)
      | Inr attachment \<Rightarrow> convertRawAttachments_loop d (result @ [attachment]) rest)"

definition convertRawAttachments :: "deps \<Rightarrow> bytes list \<Rightarrow> error + AttachmentInterface list" where
  "convertRawAttachments d rawAttachments = convertRawAttachments_loop d [] rawAttachments"

text \<open>
  The body shared by the two message cases of \<^verbatim>\<open>processMessageAttachments\<close> (the
  source repeats it verbatim for \<^verbatim>\<open>MessageCreatedUpdate\<close> and
  \<^verbatim>\<open>MessageEditedUpdate\<close>). The update is mutated in place in the source; the model
  returns the new message.
\<close>

definition processMessage :: "deps \<Rightarrow> Message \<Rightarrow> error + Message" where
  "processMessage d m =
     (case RawAttachments (Body m) of
        Some raws \<Rightarrow>
          (case convertRawAttachments d raws of
             Inl err \<Rightarrow> Inl err
           | Inr attachments \<Rightarrow>
               Inr (m\<lparr>Body := (Body m)\<lparr>Attachments := Attachments (Body m) @ attachments\<rparr>\<rparr>))
      | None \<Rightarrow>
          (case Link m of
             Some l \<Rightarrow>
               (case RawAttachments (Message l) of
                  Some raws \<Rightarrow>
                    (case convertRawAttachments d raws of
                       Inl err \<Rightarrow> Inl err
                     | Inr attachments \<Rightarrow>
                         Inr (m\<lparr>Link := Some (l\<lparr>Message :=
                                (Message l)\<lparr>Attachments := Attachments (Message l) @ attachments\<rparr>\<rparr>)\<rparr>))
                | None \<Rightarrow> Inr m)
           | None \<Rightarrow> Inr m))"

fun processMessageAttachments :: "deps \<Rightarrow> UpdateInterface \<Rightarrow> error + UpdateInterface" where
  "processMessageAttachments d (MessageCreatedUpdate u m) =
     (case processMessage d m of Inl err \<Rightarrow> Inl err | Inr m' \<Rightarrow> Inr (MessageCreatedUpdate u m'))"
| "processMessageAttachments d (MessageEditedUpdate u m) =
     (case processMessage d m of Inl err \<Rightarrow> Inl err | Inr m' \<Rightarrow> Inr (MessageEditedUpdate u m'))"
| "processMessageAttachments d update = Inr update"

definition bytesToProperUpdate :: "Api \<Rightarrow> deps \<Rightarrow> bytes \<Rightarrow> error + UpdateInterface" where
  "bytesToProperUpdate a d data =
     (case Unmarshal_Update (js d) data of
        Inl err \<Rightarrow> Inl (WrapError ''failed to unmarshal base update: '' err)
      | Inr baseUpdate \<Rightarrow>
          (let debugRaw = (if debug a then data else []);
               updateType = GetUpdateType baseUpdate in
           case getUpdateType (upd d) updateType of
             None \<Rightarrow> Inl (ErrorString (''unknown update type: '' @ updateType))
           | Some constructor \<Rightarrow>
               (case Unmarshal_UpdateInterface (js d) data (constructor debugRaw) of
                  Inl err \<Rightarrow> Inl (WrapError (''failed to unmarshal update of type '' @ updateType @ '': '') err)
                | Inr update \<Rightarrow>
                    (case processMessageAttachments d update of
                       Inl err \<Rightarrow> Inl (WrapError ''failed to process message attachments: '' err)
                     | Inr update' \<Rightarrow> Inr update'))))"

section \<open>The transport and the effects of the fetcher\<close>

text \<open>
  \<^verbatim>\<open>url.Values\<close> is a map from a key to a list of values; \<^verbatim>\<open>Set\<close> replaces the list
  of a key, \<^verbatim>\<open>Add\<close> appends to it.
\<close>

type_synonym Values = "(string \<times> string list) list"

definition Values_Set :: "string \<Rightarrow> string \<Rightarrow> Values \<Rightarrow> Values" where
  "Values_Set k v values = AList.update k [v] values"

definition Values_Add :: "string \<Rightarrow> string \<Rightarrow> Values \<Rightarrow> Values" where
  "Values_Add k v values =
     AList.update k ((case map_of values k of None \<Rightarrow> [] | Some vs \<Rightarrow> vs) @ [v]) values"

record NewMessageBody =
  Text :: string

text \<open>
  The arguments of one call of \<^verbatim>\<open>a.client.request\<close> (the context apart); \<open>verb\<close> is
  the HTTP method.
\<close>

record Request =
  verb :: string
  path :: string
  query :: Values
  reset :: bool
  payload :: "NewMessageBody option"

text \<open>
  The response body, an \<^verbatim>\<open>io.ReadCloser\<close>: what reading it to the end gives, and
  what \<^verbatim>\<open>Close\<close> returns (\<open>None\<close> is nil).
\<close>

record ResponseBody =
  ReadAll :: "error + bytes"
  Close :: "error option"

definition MethodGet :: string where
  "MethodGet = ''GET''"

definition MethodPost :: string where
  "MethodPost = ''POST''"

text \<open>
  \<^verbatim>\<open>UpdatesParams\<close> of \<^verbatim>\<open>api.go\<close>. The cursor (an \<^verbatim>\<open>int64\<close>), the page limit and the
  chat and user identifiers are of type \<open>int\<close>: the code compares them with zero and
  prints them, and does no arithmetic on them. A duration is a 64-bit count of
  nanoseconds.
\<close>

record UpdatesParams =
  Limit :: int
  Timeout :: "64 word"
  params_Marker :: int
  Types :: "string list"

definition zeroParams :: UpdatesParams where
  "zeroParams = \<lparr>Limit = 0, Timeout = 0, params_Marker = 0, Types = []\<rparr>"

text \<open>
  What the fetcher does to the outside, in the order it does it: a line printed by
  \<^verbatim>\<open>log.Printf\<close> (format and arguments) or by \<^verbatim>\<open>slog.Error\<close>, a call of the
  transport, a backoff wait that elapsed (\<^verbatim>\<open>case <-time.After(retryWait)\<close> taken), a
  call of \<^verbatim>\<open>getUpdatesWithRetry\<close> by the poll loop with what it returned, a value sent
  on the channel, and the two deferred calls of the goroutine.
\<close>

datatype arg = ArgInt int | ArgDuration "64 word" | ArgError error

datatype effect =
    Printf string "arg list"
  | SlogError string error
  | Call Request
  | After "64 word"
  | Fetch UpdatesParams "UpdateList option" "error option"
  | Send UpdateInterface
  | TickerStop
  | CloseChan

section \<open>getUpdates and getUpdatesWithRetry (api.go)\<close>

text \<open>
  \<open>request\<close> is what the transport answers to the one call that \<^verbatim>\<open>getUpdates\<close>
  makes, \<open>ctxErr\<close> the value of \<^verbatim>\<open>ctx.Err()\<close> when the function reads it. Go
  returns a pair (pointer, error), and both can be nil at once, so the result is a
  pair of options. The deferred \<^verbatim>\<open>body.Close()\<close> runs on every path after the
  request has succeeded.
\<close>

type_synonym fetched = "UpdateList option \<times> error option"

definition updates_values :: "deps \<Rightarrow> UpdatesParams \<Rightarrow> Values" where
  "updates_values d params =
     (let values = [];
          values = (if Limit params > 0
                    then Values_Set (paramLimit (cs d)) (Itoa (Limit params)) values else values);
          values = (if sint (Timeout params) > 0
                    then Values_Set (paramTimeout (cs d)) (Itoa (Seconds d (Timeout params))) values
                    else values);
          values = (if params_Marker params > 0
                    then Values_Set (paramMarker (cs d)) (Itoa (params_Marker params)) values else values)
      in foldl (\<lambda>values t. Values_Add (paramTypes (cs d)) t values) values (Types params))"

definition updates_request :: "deps \<Rightarrow> UpdatesParams \<Rightarrow> Request" where
  "updates_request d params =
     \<lparr>verb = MethodGet, path = pathUpdates (cs d), query = updates_values d params,
      reset = False, payload = None\<rparr>"

definition getUpdates ::
  "deps \<Rightarrow> (Request \<Rightarrow> error + ResponseBody) \<Rightarrow> error option \<Rightarrow> UpdatesParams option
     \<Rightarrow> fetched \<times> effect list" where
  "getUpdates d request ctxErr params0 =
     (let params = (case params0 of None \<Rightarrow> zeroParams | Some p \<Rightarrow> p);
          req = updates_request d params
      in case request req of
           Inl err \<Rightarrow>
             (if errors_As_TimeoutError err
              then ((Some \<lparr>Updates = [], Marker = None\<rparr>, None), [Call req])
              else if errors_Is err Canceled \<or> errors_Is err DeadlineExceeded
              then ((None, ctxErr), [Call req])
              else ((None, Some (WrapError ''failed to get updates: '' err)), [Call req]))
         | Inr body \<Rightarrow>
             (let deferred = (case Close body of
                                None \<Rightarrow> []
                              | Some closeErr \<Rightarrow>
                                  [Printf ''failed to close response body: %v'' [ArgError closeErr]])
              in case ReadAll body of
                   Inl err \<Rightarrow>
                     ((None, Some (WrapError ''failed to read response body: '' err)), Call req # deferred)
                 | Inr data \<Rightarrow>
                     (case Unmarshal_UpdateList (js d) data of
                        Inl err \<Rightarrow>
                          ((None, Some (WrapError ''failed to unmarshal updates: '' err)), Call req # deferred)
                      | Inr result \<Rightarrow> ((Some result, None), Call req # deferred))))"

text \<open>\<^verbatim>\<open>time.Duration(1<<uint(attempt)) * time.Second\<close>, in 64-bit arithmetic.\<close>

definition Second :: "64 word" where
  "Second = 1000000000"

definition retryWait :: "nat \<Rightarrow> 64 word" where
  "retryWait attempt = push_bit attempt 1 * Second"

text \<open>
  The loop of \<^verbatim>\<open>getUpdatesWithRetry\<close> from the value \<open>attempt\<close> of its counter on,
  with \<open>lastErr\<close> as the iterations before left it. The environment is indexed by the
  attempt: \<open>request attempt\<close> is the transport's answer to that attempt's call,
  \<open>ctxErr attempt\<close> the value of \<^verbatim>\<open>ctx.Err()\<close> then, and \<open>waitDone attempt\<close> says which
  case of the \<^verbatim>\<open>select\<close> after that attempt is taken: \<open>None\<close> when the timer fires,
  \<open>Some e\<close> when \<^verbatim>\<open>ctx.Done()\<close> does and \<^verbatim>\<open>ctx.Err()\<close> is \<open>e\<close>.
\<close>

function retry_loop ::
  "deps \<Rightarrow> (nat \<Rightarrow> Request \<Rightarrow> error + ResponseBody) \<Rightarrow> (nat \<Rightarrow> error option)
     \<Rightarrow> (nat \<Rightarrow> error option) \<Rightarrow> UpdatesParams \<Rightarrow> nat \<Rightarrow> error option \<Rightarrow> fetched \<times> effect list" where
  "retry_loop d request ctxErr waitDone params attempt lastErr =
     (if int attempt < maxRetries (cs d) then
        (case getUpdates d (request attempt) (ctxErr attempt) (Some params) of
           ((result, None), tr) \<Rightarrow> ((result, None), tr)
         | ((result, Some err), tr) \<Rightarrow>
             if errors_Is err Canceled \<or> errors_Is err DeadlineExceeded then ((None, Some err), tr)
             else if int attempt < maxRetries (cs d) - 1 then
               (let line = Printf ''Attempt %d failed, retrying in %v: %v''
                             [ArgInt (int attempt + 1), ArgDuration (retryWait attempt), ArgError err]
                in case waitDone attempt of
                     Some ctxe \<Rightarrow> ((None, Some ctxe), tr @ [line])
                   | None \<Rightarrow>
                       (case retry_loop d request ctxErr waitDone params (Suc attempt) (Some err) of
                          (r, tr') \<Rightarrow> (r, tr @ [line, After (retryWait attempt)] @ tr')))
             else
               (case retry_loop d request ctxErr waitDone params (Suc attempt) (Some err) of
                  (r, tr') \<Rightarrow> (r, tr @ tr')))
      else
        ((None, Some (case lastErr of
                        Some err \<Rightarrow>
                          WrapError (''failed after '' @ Itoa (maxRetries (cs d)) @ '' attempts: '') err
                      | None \<Rightarrow>
                          ErrorString (''failed after '' @ Itoa (maxRetries (cs d))
                                        @ '' attempts: %!w(<nil>)''))), []))"
  by pat_completeness auto
termination
  by (relation "measure (\<lambda>(d, request, ctxErr, waitDone, params, attempt, lastErr).
                   nat (maxRetries (cs d) - int attempt))") auto

declare retry_loop.simps [simp del]

definition getUpdatesWithRetry ::
  "deps \<Rightarrow> (nat \<Rightarrow> Request \<Rightarrow> error + ResponseBody) \<Rightarrow> (nat \<Rightarrow> error option)
     \<Rightarrow> (nat \<Rightarrow> error option) \<Rightarrow> UpdatesParams option \<Rightarrow> fetched \<times> effect list" where
  "getUpdatesWithRetry d request ctxErr waitDone params0 =
     retry_loop d request ctxErr waitDone
       (case params0 of None \<Rightarrow> zeroParams | Some p \<Rightarrow> p) 0 None"

section \<open>The poll loop GetUpdates (api.go)\<close>

text \<open>
  The goroutine of \<^verbatim>\<open>GetUpdates\<close> runs against an environment that answers every
  point where the outside decides:
  \<^item> \<open>tick_done t\<close>: in iteration \<open>t\<close> of the outer loop, whether the \<^verbatim>\<open>select\<close> takes
    \<^verbatim>\<open>case <-ctx.Done()\<close> (otherwise \<^verbatim>\<open>case <-ticker.C\<close>);
  \<^item> \<open>transport k\<close>, \<open>ctx_Err k\<close>, \<open>wait_done k\<close>: the environment of the \<open>k\<close>-th call
    of \<^verbatim>\<open>getUpdatesWithRetry\<close>, indexed by the attempt as above;
  \<^item> \<open>send_done k i\<close>: for item \<open>i\<close> of the page of the \<open>k\<close>-th call, whether the
    \<^verbatim>\<open>select\<close> around the send takes \<^verbatim>\<open>case <-ctx.Done()\<close> (otherwise the send
    completes).
  The loops run until the context is done, so both take fuel: the number of ticks and
  the number of pages of one drain that the run is followed for.
\<close>

record env =
  tick_done :: "nat \<Rightarrow> bool"
  transport :: "nat \<Rightarrow> nat \<Rightarrow> Request \<Rightarrow> error + ResponseBody"
  ctx_Err :: "nat \<Rightarrow> nat \<Rightarrow> error option"
  wait_done :: "nat \<Rightarrow> nat \<Rightarrow> error option"
  send_done :: "nat \<Rightarrow> nat \<Rightarrow> bool"

text \<open>
  \<^verbatim>\<open>for _, rawUpdate := range updateList.Updates\<close>, from item \<open>i\<close> on. The flag of
  the result says that the goroutine returns (the context was done at a send).
\<close>

fun page_loop :: "Api \<Rightarrow> deps \<Rightarrow> (nat \<Rightarrow> bool) \<Rightarrow> nat \<Rightarrow> bytes list \<Rightarrow> effect list \<times> bool" where
  "page_loop a d done i [] = ([], False)"
| "page_loop a d done i (rawUpdate # rest) =
     (case bytesToProperUpdate a d rawUpdate of
        Inl err \<Rightarrow> page_loop a d done (Suc i) rest
      | Inr update \<Rightarrow>
          if done i then ([], True)
          else (case page_loop a d done (Suc i) rest of (tr, r) \<Rightarrow> (Send update # tr, r)))"

datatype exit = Break | Return | Panic | OutOfFuel

text \<open>
  The inner \<^verbatim>\<open>for\<close> loop, entered with \<open>k\<close> calls of \<^verbatim>\<open>getUpdatesWithRetry\<close> made
  so far and the cursor \<open>marker\<close>. It gives how the loop is left, the number of calls
  and the cursor then, and the effects. \<open>Panic\<close> is the nil dereference of
  \<^verbatim>\<open>updateList.Updates\<close> when the fetch returned neither a page nor an error.
\<close>

fun drain :: "Api \<Rightarrow> deps \<Rightarrow> env \<Rightarrow> nat \<Rightarrow> nat \<Rightarrow> int \<Rightarrow> (exit \<times> nat \<times> int) \<times> effect list" where
  "drain a d e 0 k marker = ((OutOfFuel, k, marker), [])"
| "drain a d e (Suc n) k marker =
     (let params = \<lparr>Limit = maxUpdatesLimit (cs d), Timeout = timeout a,
                    params_Marker = marker, Types = []\<rparr>
      in case getUpdatesWithRetry d (transport e k) (ctx_Err e k) (wait_done e k) (Some params) of
           ((updateList, Some err), tr) \<Rightarrow>
             ((Break, Suc k, marker),
              tr @ [Fetch params updateList (Some err),
                    Printf ''failed to get updates: %v'' [ArgError err]])
         | ((None, None), tr) \<Rightarrow> ((Panic, Suc k, marker), tr @ [Fetch params None None])
         | ((Some updateList, None), tr) \<Rightarrow>
             if length (Updates updateList) = 0
             then ((Break, Suc k, marker), tr @ [Fetch params (Some updateList) None])
             else
               (case page_loop a d (send_done e k) 0 (Updates updateList) of
                  (sends, True) \<Rightarrow>
                    ((Return, Suc k, marker), tr @ [Fetch params (Some updateList) None] @ sends)
                | (sends, False) \<Rightarrow>
                    (case drain a d e n (Suc k)
                            (case Marker updateList of Some m \<Rightarrow> m | None \<Rightarrow> marker) of
                       (r, tr') \<Rightarrow> (r, tr @ [Fetch params (Some updateList) None] @ sends @ tr'))))"

text \<open>The outer \<^verbatim>\<open>for\<close> loop with its \<^verbatim>\<open>select\<close>, in iteration \<open>t\<close>.\<close>

fun ticker_loop ::
  "Api \<Rightarrow> deps \<Rightarrow> env \<Rightarrow> nat \<Rightarrow> nat \<Rightarrow> nat \<Rightarrow> nat \<Rightarrow> int \<Rightarrow> exit \<times> effect list" where
  "ticker_loop a d e pages 0 t k marker = (OutOfFuel, [])"
| "ticker_loop a d e pages (Suc n) t k marker =
     (if tick_done e t then (Return, [])
      else
        (case drain a d e pages k marker of
           ((Break, k', marker'), tr) \<Rightarrow>
             (case ticker_loop a d e pages n (Suc t) k' marker' of (r, tr') \<Rightarrow> (r, tr @ tr'))
         | ((r, k', marker'), tr) \<Rightarrow> (r, tr)))"

text \<open>
  The goroutine: \<^verbatim>\<open>var marker int64\<close> starts at zero; the deferred
  \<^verbatim>\<open>ticker.Stop()\<close> and \<^verbatim>\<open>close(ch)\<close> run when it returns or panics.
\<close>

definition GetUpdates :: "Api \<Rightarrow> deps \<Rightarrow> env \<Rightarrow> nat \<Rightarrow> nat \<Rightarrow> exit \<times> effect list" where
  "GetUpdates a d e ticks pages =
     (case ticker_loop a d e pages ticks 0 0 0 of
        (r, tr) \<Rightarrow> (r, if r = OutOfFuel then tr else tr @ [TickerStop, CloseChan]))"

section \<open>The webhook handler GetHandler (api.go)\<close>

text \<open>
  A Go channel as a sender sees it: the buffered values, the capacity, the number of
  goroutines blocked in a receive, and the values handed straight to such receivers.
  A send in a \<^verbatim>\<open>select\<close> with a \<^verbatim>\<open>default\<close> case goes through when a receiver
  waits or the buffer has room, and is not made otherwise.
\<close>

record 'a chan =
  buf :: "'a list"
  cap :: nat
  recvq :: nat
  handed :: "'a list"

definition try_send :: "'a \<Rightarrow> 'a chan \<Rightarrow> 'a chan option" where
  "try_send v ch =
     (if recvq ch > 0 then Some (ch\<lparr>recvq := recvq ch - 1, handed := handed ch @ [v]\<rparr>)
      else if length (buf ch) < cap ch then Some (ch\<lparr>buf := buf ch @ [v]\<rparr>)
      else None)"

record HttpRequest =
  Method :: string
  RequestBody :: "error + bytes"

record HttpResponse =
  status :: nat
  text_of :: string

definition StatusOK :: nat where
  "StatusOK = 200"

definition StatusBadRequest :: nat where
  "StatusBadRequest = 400"

definition StatusMethodNotAllowed :: nat where
  "StatusMethodNotAllowed = 405"

definition StatusServiceUnavailable :: nat where
  "StatusServiceUnavailable = 503"

text \<open>\<^verbatim>\<open>http.Error(w, msg, code)\<close> writes the status and the message with a newline.\<close>

definition http_Error :: "string \<Rightarrow> nat \<Rightarrow> HttpResponse" where
  "http_Error msg code = \<lparr>status = code, text_of = msg @ [CHR 0x0A]\<rparr>"

definition GetHandler ::
  "Api \<Rightarrow> deps \<Rightarrow> UpdateInterface chan \<Rightarrow> HttpRequest \<Rightarrow> HttpResponse \<times> UpdateInterface chan" where
  "GetHandler a d updates r =
     (if Method r \<noteq> MethodPost then (http_Error ''Method not allowed'' StatusMethodNotAllowed, updates)
      else
        (case RequestBody r of
           Inl err \<Rightarrow> (http_Error ''Failed to read request body'' StatusBadRequest, updates)
         | Inr body \<Rightarrow>
             (case bytesToProperUpdate a d body of
                Inl err \<Rightarrow> (http_Error ''Failed to parse update'' StatusBadRequest, updates)
              | Inr update \<Rightarrow>
                  (case try_send update updates of
                     Some updates' \<Rightarrow> (\<lparr>status = StatusOK, text_of = []\<rparr>, updates')
                   | None \<Rightarrow>
                       (http_Error ''Updates channel is full'' StatusServiceUnavailable, updates)))))"

section \<open>The low-level send (debugs.go)\<close>

text \<open>
  \<^verbatim>\<open>sendMessage\<close> returns an \<^verbatim>\<open>error\<close>: nil (\<open>None\<close>), the transport's error (\<open>Inl\<close>)
  or the decoded \<^verbatim>\<open>*schemes.Error\<close> (\<open>Inr\<close>). The decoder reads the body, so a failed
  read is a failed decode.
\<close>

definition message_request :: "deps \<Rightarrow> bool \<Rightarrow> int \<Rightarrow> int \<Rightarrow> NewMessageBody \<Rightarrow> Request" where
  "message_request d reset' chatID userID message =
     (let values = [];
          values = (if chatID \<noteq> 0 then Values_Set (paramChatID (cs d)) (Itoa chatID) values else values);
          values = (if userID \<noteq> 0 then Values_Set (paramUserID (cs d)) (Itoa userID) values else values)
      in \<lparr>verb = MethodPost, path = pathMessages (cs d), query = values,
          reset = reset', payload = Some message\<rparr>)"

definition sendMessage ::
  "deps \<Rightarrow> (Request \<Rightarrow> error + ResponseBody) \<Rightarrow> bool \<Rightarrow> int \<Rightarrow> int \<Rightarrow> NewMessageBody
     \<Rightarrow> (error + schemes_Error) option \<times> effect list" where
  "sendMessage d request reset' chatID userID message =
     (let req = message_request d reset' chatID userID message
      in case request req of
           Inl err \<Rightarrow> (Some (Inl err), [Call req])
         | Inr body \<Rightarrow>
             (let deferred = (case Close body of
                                None \<Rightarrow> []
                              | Some err \<Rightarrow> [SlogError ''failed to close response body'' err])
              in case (case ReadAll body of Inl err \<Rightarrow> Inl err | Inr data \<Rightarrow> Decode_Error (js d) data) of
                   Inl err \<Rightarrow> (None, Call req # deferred)
                 | Inr result \<Rightarrow>
                     if Code result = [] then (None, Call req # deferred)
                     else (Some (Inr result), Call req # deferred)))"

section \<open>Observations on the effects\<close>

fun fetches :: "effect list \<Rightarrow> (UpdatesParams \<times> UpdateList option \<times> error option) list" where
  "fetches [] = []"
| "fetches (Fetch p r err # tr) = (p, r, err) # fetches tr"
| "fetches (x # tr) = fetches tr"

fun sends :: "effect list \<Rightarrow> UpdateInterface list" where
  "sends [] = []"
| "sends (Send u # tr) = u # sends tr"
| "sends (x # tr) = sends tr"

fun waits :: "effect list \<Rightarrow> 64 word list" where
  "waits [] = []"
| "waits (After w # tr) = w # waits tr"
| "waits (x # tr) = waits tr"

fun calls :: "effect list \<Rightarrow> Request list" where
  "calls [] = []"
| "calls (Call r # tr) = r # calls tr"
| "calls (x # tr) = calls tr"

fun log_lines :: "effect list \<Rightarrow> effect list" where
  "log_lines [] = []"
| "log_lines (Printf f args # tr) = Printf f args # log_lines tr"
| "log_lines (SlogError m err # tr) = SlogError m err # log_lines tr"
| "log_lines (x # tr) = log_lines tr"

fun requested_markers :: "(UpdatesParams \<times> UpdateList option \<times> error option) list \<Rightarrow> int list" where
  "requested_markers [] = []"
| "requested_markers ((p, r, err) # fs) = params_Marker p # requested_markers fs"

fun fetched_pages :: "(UpdatesParams \<times> UpdateList option \<times> error option) list \<Rightarrow> bytes list list" where
  "fetched_pages [] = []"
| "fetched_pages ((p, Some page, err) # fs) = Updates page # fetched_pages fs"
| "fetched_pages ((p, None, err) # fs) = fetched_pages fs"

text \<open>The updates that a list of raw items decodes to, the items that fail left out.\<close>

fun decoded :: "Api \<Rightarrow> deps \<Rightarrow> bytes list \<Rightarrow> UpdateInterface list" where
  "decoded a d [] = []"
| "decoded a d (raw # rest) =
     (case bytesToProperUpdate a d raw of
        Inl err \<Rightarrow> decoded a d rest
      | Inr update \<Rightarrow> update # decoded a d rest)"

definition known_update_types :: "update_types \<Rightarrow> string list" where
  "known_update_types c =
     [TypeMessageCallback c, TypeMessageCreated c, TypeMessageRemoved c, TypeMessageEdited c,
      TypeBotAdded c, TypeBotRemoved c, TypeUserAdded c, TypeUserRemoved c, TypeBotStarted c,
      TypeChatTitleChanged c]"

definition known_attachment_types :: "attachment_types \<Rightarrow> string list" where
  "known_attachment_types c =
     [AttachmentAudio c, AttachmentContact c, AttachmentFile c, AttachmentImage c,
      AttachmentKeyboard c, AttachmentLocation c, AttachmentShare c, AttachmentSticker c,
      AttachmentVideo c]"

text \<open>
  The cursor rule in the spec's words: the cursor after a fetch is the marker the
  server returned, when the fetch gave a page with updates and a marker, and stays
  where it was otherwise. \<open>cursor_follows marker fs\<close> says that the fetches \<open>fs\<close>, in
  order, are each made with the cursor that this rule gives, from \<open>marker\<close> on.
\<close>

definition adopt :: "int \<Rightarrow> UpdateList option \<Rightarrow> error option \<Rightarrow> int" where
  "adopt marker r err =
     (case (r, err) of
        (Some page, None) \<Rightarrow>
          (if Updates page = [] then marker
           else (case Marker page of Some m \<Rightarrow> m | None \<Rightarrow> marker))
      | _ \<Rightarrow> marker)"

fun cursor_follows :: "int \<Rightarrow> (UpdatesParams \<times> UpdateList option \<times> error option) list \<Rightarrow> bool" where
  "cursor_follows marker [] = True"
| "cursor_follows marker ((p, r, err) # rest) =
     (params_Marker p = marker \<and> cursor_follows (adopt marker r err) rest)"

text \<open>The cursor that the rule leaves after the fetches \<open>fs\<close>.\<close>

fun cursor_after :: "int \<Rightarrow> (UpdatesParams \<times> UpdateList option \<times> error option) list \<Rightarrow> int" where
  "cursor_after marker [] = marker"
| "cursor_after marker ((p, r, err) # rest) = cursor_after (adopt marker r err) rest"

text \<open>
  The parameters that the poll loop builds for a fetch with the cursor \<open>marker\<close>, and
  the cursor rule read off the whole run: \<open>wire_follows a d marker tr\<close> says that in
  the effects \<open>tr\<close> every call of the transport is the request built from these
  parameters with the cursor as it stands, and that every fetch is made with them and
  moves the cursor by the rule. \<open>wire_markers\<close> gives the marker query parameter of
  every call of the transport, in order (\<open>None\<close> when the request has none).
\<close>

definition poll_params :: "Api \<Rightarrow> deps \<Rightarrow> int \<Rightarrow> UpdatesParams" where
  "poll_params a d marker =
     \<lparr>Limit = maxUpdatesLimit (cs d), Timeout = timeout a, params_Marker = marker, Types = []\<rparr>"

fun wire_follows :: "Api \<Rightarrow> deps \<Rightarrow> int \<Rightarrow> effect list \<Rightarrow> bool" where
  "wire_follows a d marker [] = True"
| "wire_follows a d marker (Call r # tr) =
     (r = updates_request d (poll_params a d marker) \<and> wire_follows a d marker tr)"
| "wire_follows a d marker (Fetch p r err # tr) =
     (p = poll_params a d marker \<and> wire_follows a d (adopt marker r err) tr)"
| "wire_follows a d marker (x # tr) = wire_follows a d marker tr"

fun wire_markers :: "deps \<Rightarrow> effect list \<Rightarrow> string list option list" where
  "wire_markers d [] = []"
| "wire_markers d (Call r # tr) = map_of (query r) (paramMarker (cs d)) # wire_markers d tr"
| "wire_markers d (x # tr) = wire_markers d tr"

text \<open>
  The server's side of the data model: the marker it returns with a page is never
  behind the marker it was asked with.
\<close>

fun never_behind :: "(UpdatesParams \<times> UpdateList option \<times> error option) list \<Rightarrow> bool" where
  "never_behind [] = True"
| "never_behind ((p, r, err) # fs) =
     ((case r of
         Some page \<Rightarrow> (case Marker page of Some m \<Rightarrow> params_Marker p \<le> m | None \<Rightarrow> True)
       | None \<Rightarrow> True) \<and> never_behind fs)"

section \<open>A concrete environment\<close>

text \<open>
  Values for the parameters, to run the model on: discriminators and wire names, a
  retry bound of five, and a codec that reads a small fixed set of payloads (written
  without quotation marks) the way \<^verbatim>\<open>encoding/json\<close> reads their JSON counterparts.
\<close>

definition demo_update_types :: update_types where
  "demo_update_types =
     \<lparr>TypeMessageCallback = ''message_callback'', TypeMessageCreated = ''message_created'',
      TypeMessageRemoved = ''message_removed'', TypeMessageEdited = ''message_edited'',
      TypeBotAdded = ''bot_added'', TypeBotRemoved = ''bot_removed'',
      TypeUserAdded = ''user_added'', TypeUserRemoved = ''user_removed'',
      TypeBotStarted = ''bot_started'', TypeChatTitleChanged = ''chat_title_changed''\<rparr>"

definition demo_attachment_types :: attachment_types where
  "demo_attachment_types =
     \<lparr>AttachmentAudio = ''audio'', AttachmentContact = ''contact'', AttachmentFile = ''file'',
      AttachmentImage = ''image'', AttachmentKeyboard = ''inline_keyboard'',
      AttachmentLocation = ''location'', AttachmentShare = ''share'',
      AttachmentSticker = ''sticker'', AttachmentVideo = ''video''\<rparr>"

definition demo_constants :: constants where
  "demo_constants =
     \<lparr>maxRetries = 5, maxUpdatesLimit = 100, paramLimit = ''limit'', paramTimeout = ''timeout'',
      paramMarker = ''marker'', paramTypes = ''types'', paramChatID = ''chat_id'',
      paramUserID = ''user_id'', pathUpdates = ''updates'', pathMessages = ''messages''\<rparr>"

text \<open>The payloads: an update's discriminator, and the message it carries if any.\<close>

definition demo_updates :: "(bytes \<times> string \<times> Message option) list" where
  "demo_updates =
     [(''{type:message_created}'', ''message_created'', Some zeroMessage),
      (''{type:bot_started}'', ''bot_started'', None),
      (''{type:totally_unknown}'', ''totally_unknown'', None),
      (''{type:message_edited,link:[{type:new_widget}]}'', ''message_edited'',
         Some \<lparr>Body = \<lparr>Attachments = [], RawAttachments = None\<rparr>,
               Link = Some \<lparr>Message = \<lparr>Attachments = [],
                                        RawAttachments = Some [''{type:new_widget}'']\<rparr>\<rparr>\<rparr>),
      (''{type:message_created,attachments:[],link:[{type:image}]}'', ''message_created'',
         Some \<lparr>Body = \<lparr>Attachments = [], RawAttachments = Some []\<rparr>,
               Link = Some \<lparr>Message = \<lparr>Attachments = [],
                                        RawAttachments = Some [''{type:image}'']\<rparr>\<rparr>\<rparr>),
      (''{type:message_created,attachments:[{type:image},{type:video,url:7}]}'', ''message_created'',
         Some \<lparr>Body = \<lparr>Attachments = [],
                        RawAttachments = Some [''{type:image}'', ''{type:video,url:7}'']\<rparr>,
               Link = None\<rparr>),
      (''{type:message_created,attachments:[{type:42},{type:image}]}'', ''message_created'',
         Some \<lparr>Body = \<lparr>Attachments = [],
                        RawAttachments = Some [''{type:42}'', ''{type:image}'']\<rparr>,
               Link = None\<rparr>),
      (''{type:message_created,attachments:[{type:image},{type:42}]}'', ''message_created'',
         Some \<lparr>Body = \<lparr>Attachments = [],
                        RawAttachments = Some [''{type:image}'', ''{type:42}'']\<rparr>,
               Link = None\<rparr>)]"

text \<open>
  The attachment payloads: the discriminator, and whether the full decode succeeds.
  The payload \<^verbatim>\<open>{type:42}\<close> is not in the table: its discriminator is a number, and
  already the envelope fails to decode.
\<close>

definition demo_attachments :: "(bytes \<times> string \<times> bool) list" where
  "demo_attachments =
     [(''{type:new_widget}'', ''new_widget'', True),
      (''{type:image}'', ''image'', True),
      (''{type:video,url:7}'', ''video'', False)]"

definition demo_pages :: "(bytes \<times> UpdateList) list" where
  "demo_pages =
     [(''{updates:[A],marker:5}'',
         \<lparr>Updates = [''{type:message_created}''], Marker = Some 5\<rparr>),
      (''{updates:[A,X,B]}'',
         \<lparr>Updates = [''{type:message_created}'', ''{type:totally_unknown}'', ''{type:bot_started}''],
          Marker = None\<rparr>),
      (''{updates:[B],marker:9}'',
         \<lparr>Updates = [''{type:bot_started}''], Marker = Some 9\<rparr>)]"

fun set_envelope :: "string \<Rightarrow> Message option \<Rightarrow> UpdateInterface \<Rightarrow> UpdateInterface" where
  "set_envelope t m (MessageCallbackUpdate u) = MessageCallbackUpdate (u\<lparr>UpdateType := t\<rparr>)"
| "set_envelope t m (MessageCreatedUpdate u m0) =
     MessageCreatedUpdate (u\<lparr>UpdateType := t\<rparr>) (case m of Some m' \<Rightarrow> m' | None \<Rightarrow> m0)"
| "set_envelope t m (MessageRemovedUpdate u) = MessageRemovedUpdate (u\<lparr>UpdateType := t\<rparr>)"
| "set_envelope t m (MessageEditedUpdate u m0) =
     MessageEditedUpdate (u\<lparr>UpdateType := t\<rparr>) (case m of Some m' \<Rightarrow> m' | None \<Rightarrow> m0)"
| "set_envelope t m (BotAddedToChatUpdate u) = BotAddedToChatUpdate (u\<lparr>UpdateType := t\<rparr>)"
| "set_envelope t m (BotRemovedFromChatUpdate u) = BotRemovedFromChatUpdate (u\<lparr>UpdateType := t\<rparr>)"
| "set_envelope t m (UserAddedToChatUpdate u) = UserAddedToChatUpdate (u\<lparr>UpdateType := t\<rparr>)"
| "set_envelope t m (UserRemovedFromChatUpdate u) = UserRemovedFromChatUpdate (u\<lparr>UpdateType := t\<rparr>)"
| "set_envelope t m (BotStartedUpdate u) = BotStartedUpdate (u\<lparr>UpdateType := t\<rparr>)"
| "set_envelope t m (ChatTitleChangedUpdate u) = ChatTitleChangedUpdate (u\<lparr>UpdateType := t\<rparr>)"

fun set_type :: "string \<Rightarrow> AttachmentInterface \<Rightarrow> AttachmentInterface" where
  "set_type t (BaseAttachment x) = BaseAttachment (x\<lparr>Type := t\<rparr>)"
| "set_type t (AudioAttachment x) = AudioAttachment (x\<lparr>Type := t\<rparr>)"
| "set_type t (ContactAttachment x) = ContactAttachment (x\<lparr>Type := t\<rparr>)"
| "set_type t (FileAttachment x) = FileAttachment (x\<lparr>Type := t\<rparr>)"
| "set_type t (PhotoAttachment x) = PhotoAttachment (x\<lparr>Type := t\<rparr>)"
| "set_type t (InlineKeyboardAttachment x) = InlineKeyboardAttachment (x\<lparr>Type := t\<rparr>)"
| "set_type t (LocationAttachment x) = LocationAttachment (x\<lparr>Type := t\<rparr>)"
| "set_type t (ShareAttachment x) = ShareAttachment (x\<lparr>Type := t\<rparr>)"
| "set_type t (StickerAttachment x) = StickerAttachment (x\<lparr>Type := t\<rparr>)"
| "set_type t (VideoAttachment x) = VideoAttachment (x\<lparr>Type := t\<rparr>)"

definition syntax_error :: error where
  "syntax_error = ErrorString ''unexpected end of JSON input''"

definition type_error :: error where
  "type_error = ErrorString ''json: cannot unmarshal number into Go struct field of type string''"

definition demo_json :: json where
  "demo_json =
     \<lparr>Unmarshal_Update =
        (\<lambda>data. case map_of demo_updates data of
                  None \<Rightarrow> Inl syntax_error
                | Some (t, m) \<Rightarrow> Inr \<lparr>UpdateType = t, DebugRaw = []\<rparr>),
      Unmarshal_UpdateInterface =
        (\<lambda>data u. case map_of demo_updates data of
                    None \<Rightarrow> Inl syntax_error
                  | Some (t, m) \<Rightarrow> Inr (set_envelope t m u)),
      Unmarshal_Attachment =
        (\<lambda>data. if data = ''{type:42}'' then Inl type_error
                else case map_of demo_attachments data of
                       None \<Rightarrow> Inl syntax_error
                     | Some (t, ok) \<Rightarrow> Inr \<lparr>Type = t\<rparr>),
      Unmarshal_AttachmentInterface =
        (\<lambda>data x. if data = ''{type:42}'' then Inl type_error
                  else case map_of demo_attachments data of
                         None \<Rightarrow> Inl syntax_error
                       | Some (t, ok) \<Rightarrow> if ok then Inr (set_type t x) else Inl type_error),
      Unmarshal_UpdateList =
        (\<lambda>data. case map_of demo_pages data of
                  None \<Rightarrow> Inl syntax_error
                | Some page \<Rightarrow> Inr page),
      Decode_Error =
        (\<lambda>data. if data = ''{code:too.many.requests}'' then Inr \<lparr>Code = ''too.many.requests''\<rparr>
                else if data = ''{}'' then Inr \<lparr>Code = []\<rparr>
                else Inl syntax_error)\<rparr>"

text \<open>
  \<^verbatim>\<open>int(d.Seconds())\<close> worked out in integers. Package \<^verbatim>\<open>time\<close> computes
  \<^verbatim>\<open>float64(sec) + float64(nsec)/1e9\<close> from the quotient and the remainder of the
  duration by a second, each operation rounded to the nearest double; the conversion
  truncates. Both parts are exact doubles, so the result is the whole seconds, or one
  more when the sum rounds up to the next whole number: that is when \<open>nsec / 10^9\<close>
  lies above \<open>1 - p / 2^54 - 1 / 2^54\<close>, where \<open>p\<close> is the least power of two
  above \<open>sec\<close> and \<open>2^54\<close> is 18014398509481984 (for \<open>sec\<close> below one nothing
  rounds up). A negative duration
  gives the negated result of its magnitude.
\<close>

fun pow2_above :: "nat \<Rightarrow> int \<Rightarrow> int \<Rightarrow> int" where
  "pow2_above 0 p n = p"
| "pow2_above (Suc k) p n = (if n < p then p else pow2_above k (2 * p) n)"

definition whole_seconds :: "64 word \<Rightarrow> int" where
  "whole_seconds t =
     (let n = \<bar>sint t\<bar>;
          sec = n div 1000000000;
          nsec = n mod 1000000000;
          up = (1 \<le> sec \<and>
                1000000000 * (18014398509481984 - pow2_above 64 1 sec - 1) < nsec * 18014398509481984);
          r = sec + (if up then 1 else 0)
      in if sint t < 0 then - r else r)"

definition demo_deps :: deps where
  "demo_deps =
     \<lparr>upd = demo_update_types, att = demo_attachment_types, js = demo_json, cs = demo_constants,
      Seconds = whole_seconds\<rparr>"

definition demo_api :: Api where
  "demo_api = \<lparr>timeout = 30 * Second, pause = Second, debug = False\<rparr>"

definition ok_body :: "bytes \<Rightarrow> ResponseBody" where
  "ok_body data = \<lparr>ReadAll = Inr data, Close = None\<rparr>"

text \<open>
  A server that answers the first three fetches with pages carrying the markers 5,
  none and 9, and lets the fourth long poll time out; the context is done at the
  second tick.
\<close>

definition demo_env :: env where
  "demo_env =
     \<lparr>tick_done = (\<lambda>t. 1 \<le> t),
      transport = (\<lambda>k attempt req.
         if k = 0 then Inr (ok_body ''{updates:[A],marker:5}'')
         else if k = 1 then Inr (ok_body ''{updates:[A,X,B]}'')
         else if k = 2 then Inr (ok_body ''{updates:[B],marker:9}'')
         else Inl (TimeoutError ''long poll timed out'')),
      ctx_Err = (\<lambda>k attempt. None),
      wait_done = (\<lambda>k attempt. None),
      send_done = (\<lambda>k i. False)\<rparr>"

text \<open>
  A server that answers the first fetch with a page carrying the marker 9 and the
  second with a page carrying the marker 5; the third long poll times out.
\<close>

definition back_env :: env where
  "back_env =
     \<lparr>tick_done = (\<lambda>t. 1 \<le> t),
      transport = (\<lambda>k attempt req.
         if k = 0 then Inr (ok_body ''{updates:[B],marker:9}'')
         else if k = 1 then Inr (ok_body ''{updates:[A],marker:5}'')
         else Inl (TimeoutError ''long poll timed out'')),
      ctx_Err = (\<lambda>k attempt. None),
      wait_done = (\<lambda>k attempt. None),
      send_done = (\<lambda>k i. False)\<rparr>"

definition demo_params :: "int \<Rightarrow> UpdatesParams" where
  "demo_params marker = \<lparr>Limit = 100, Timeout = 30000000000, params_Marker = marker, Types = []\<rparr>"

definition created :: UpdateInterface where
  "created = MessageCreatedUpdate \<lparr>UpdateType = ''message_created'', DebugRaw = []\<rparr> zeroMessage"

definition started :: UpdateInterface where
  "started = BotStartedUpdate \<lparr>UpdateType = ''bot_started'', DebugRaw = []\<rparr>"

text \<open>A queue of capacity one that is full, with no receiver waiting.\<close>

definition full_chan :: "UpdateInterface chan" where
  "full_chan = \<lparr>buf = [created], cap = 1, recvq = 0, handed = []\<rparr>"


section \<open>The decoder: attachments\<close>

lemma getAttachmentType_None_iff:
  "getAttachmentType c t = None \<longleftrightarrow> t \<notin> set (known_attachment_types c)"
  by (simp add: getAttachmentType_def known_attachment_types_def)

lemma getUpdateType_None_iff:
  "getUpdateType c t = None \<longleftrightarrow> t \<notin> set (known_update_types c)"
  by (simp add: getUpdateType_def known_update_types_def)

lemma convert_loop_ok:
  "map (bytesToProperAttachment d) raws = map Inr atts \<Longrightarrow>
   convertRawAttachments_loop d acc raws = Inr (acc @ atts)"
proof (induction raws arbitrary: acc atts)
  case Nil
  then show ?case by simp
next
  case (Cons raw raws)
  then obtain x xs where atts: "atts = x # xs" by (cases atts) auto
  with Cons.prems have hd: "bytesToProperAttachment d raw = Inr x"
    and tl: "map (bytesToProperAttachment d) raws = map Inr xs" by auto
  show ?case using Cons.IH [OF tl, of "acc @ [x]"] hd atts by simp
qed

lemma convert_loop_first_failure:
  "\<exists>raw\<in>set raws. isl (bytesToProperAttachment d raw) \<Longrightarrow>
   \<exists>xs bad ys err. raws = xs @ bad # ys \<and> (\<forall>x\<in>set xs. \<not> isl (bytesToProperAttachment d x)) \<and>
      bytesToProperAttachment d bad = Inl err \<and>
      convertRawAttachments_loop d acc raws = Inl (WrapError ''failed to process attachment: '' err)"
proof (induction raws arbitrary: acc)
  case Nil
  then show ?case by simp
next
  case (Cons raw raws)
  show ?case
  proof (cases "bytesToProperAttachment d raw")
    case (Inl err)
    then have "raw # raws = [] @ raw # raws \<and> (\<forall>x\<in>set []. \<not> isl (bytesToProperAttachment d x)) \<and>
        bytesToProperAttachment d raw = Inl err \<and>
        convertRawAttachments_loop d acc (raw # raws) = Inl (WrapError ''failed to process attachment: '' err)"
      by simp
    then show ?thesis by blast
  next
    case (Inr x)
    with Cons.prems have "\<exists>raw\<in>set raws. isl (bytesToProperAttachment d raw)" by auto
    from Cons.IH [OF this, of "acc @ [x]"] obtain xs bad ys err where
      h: "raws = xs @ bad # ys" "\<forall>x\<in>set xs. \<not> isl (bytesToProperAttachment d x)"
         "bytesToProperAttachment d bad = Inl err"
         "convertRawAttachments_loop d (acc @ [x]) raws = Inl (WrapError ''failed to process attachment: '' err)"
      by blast
    from h Inr have "raw # raws = (raw # xs) @ bad # ys \<and>
        (\<forall>x\<in>set (raw # xs). \<not> isl (bytesToProperAttachment d x)) \<and>
        bytesToProperAttachment d bad = Inl err \<and>
        convertRawAttachments_loop d acc (raw # raws) = Inl (WrapError ''failed to process attachment: '' err)"
      by simp
    then show ?thesis by blast
  qed
qed

lemma attachment_error_forms:
  "bytesToProperAttachment d raw = Inl err \<Longrightarrow>
   (\<exists>e. Unmarshal_Attachment (js d) raw = Inl e \<and>
         err = WrapError ''failed to unmarshal base attachment: '' e)
   \<or> (\<exists>base v e. Unmarshal_Attachment (js d) raw = Inr base \<and>
         getAttachmentType (att d) (GetAttachmentType base) = Some v \<and>
         Unmarshal_AttachmentInterface (js d) raw v = Inl e \<and>
         err = WrapError (''failed to unmarshal attachment of type '' @ GetAttachmentType base @ '': '') e)"
  by (auto simp: bytesToProperAttachment_def Let_def split: sum.splits option.splits)

text \<open>
  C7. \<^verbatim>\<open>bytesToProperAttachment\<close> does not fail on an unrecognised discriminator: when
  the envelope decodes and its type is none of the nine attachment types, the result
  is the base attachment record as decoded, with its type value, and no error. On the
  recognised path a structural decode error is returned, wrapped with the type.
\<close>

theorem unknown_attachment_degrades_to_base:
  "(Unmarshal_Attachment (js d) data = Inr base \<longrightarrow>
      GetAttachmentType base \<notin> set (known_attachment_types (att d)) \<longrightarrow>
      bytesToProperAttachment d data = Inr (BaseAttachment base))
   \<and> (Unmarshal_Attachment (js d) data = Inr base \<longrightarrow>
      getAttachmentType (att d) (GetAttachmentType base) = Some v \<longrightarrow>
      Unmarshal_AttachmentInterface (js d) data v = Inl err \<longrightarrow>
      bytesToProperAttachment d data =
        Inl (WrapError (''failed to unmarshal attachment of type '' @ GetAttachmentType base @ '': '') err))"
  by (simp add: bytesToProperAttachment_def getAttachmentType_None_iff [symmetric])

theorem unknown_attachment_degrades_to_base_witness:
  "bytesToProperAttachment demo_deps ''{type:new_widget}'' = Inr (BaseAttachment \<lparr>Type = ''new_widget''\<rparr>)
   \<and> bytesToProperAttachment demo_deps ''{type:video,url:7}'' =
       Inl (WrapError ''failed to unmarshal attachment of type video: '' type_error)"
proof -
  have 1: "Unmarshal_Attachment (js demo_deps) ''{type:new_widget}'' = Inr \<lparr>Type = ''new_widget''\<rparr>"
    by (simp add: demo_deps_def demo_json_def demo_attachments_def)
  have 2: "GetAttachmentType \<lparr>Type = ''new_widget''\<rparr> \<notin> set (known_attachment_types (att demo_deps))"
    by (simp add: demo_deps_def demo_attachment_types_def known_attachment_types_def GetAttachmentType_def)
  have 3: "Unmarshal_Attachment (js demo_deps) ''{type:video,url:7}'' = Inr \<lparr>Type = ''video''\<rparr>"
    by (simp add: demo_deps_def demo_json_def demo_attachments_def)
  have 4: "getAttachmentType (att demo_deps) (GetAttachmentType \<lparr>Type = ''video''\<rparr>) =
             Some (VideoAttachment zeroAttachment)"
    by (simp add: demo_deps_def demo_attachment_types_def getAttachmentType_def GetAttachmentType_def)
  have 5: "Unmarshal_AttachmentInterface (js demo_deps) ''{type:video,url:7}''
             (VideoAttachment zeroAttachment) = Inl type_error"
    by (simp add: demo_deps_def demo_json_def demo_attachments_def)
  from unknown_attachment_degrades_to_base
         [of demo_deps "''{type:new_widget}''" "\<lparr>Type = ''new_widget''\<rparr>"] 1 2
  have a: "bytesToProperAttachment demo_deps ''{type:new_widget}'' =
             Inr (BaseAttachment \<lparr>Type = ''new_widget''\<rparr>)"
    by blast
  from unknown_attachment_degrades_to_base
         [of demo_deps "''{type:video,url:7}''" "\<lparr>Type = ''video''\<rparr>"
             "VideoAttachment zeroAttachment" type_error] 3 4 5
  have "bytesToProperAttachment demo_deps ''{type:video,url:7}'' =
          Inl (WrapError (''failed to unmarshal attachment of type ''
                            @ GetAttachmentType \<lparr>Type = ''video''\<rparr> @ '': '') type_error)"
    by blast
  then show ?thesis using a by (simp add: GetAttachmentType_def)
qed

text \<open>
  C10. A raw attachment list of the body that is present but empty selects the body
  branch of \<^verbatim>\<open>processMessageAttachments\<close>: nothing is appended and the link is left as
  it is, whatever raw attachments the linked message carries. The branch is chosen by
  the list not being nil, not by its having elements.
\<close>

theorem empty_raw_list_takes_body_branch:
  "RawAttachments (Body m) = Some [] \<Longrightarrow>
   processMessageAttachments d (MessageCreatedUpdate u m) = Inr (MessageCreatedUpdate u m)
   \<and> processMessageAttachments d (MessageEditedUpdate u m) = Inr (MessageEditedUpdate u m)"
  by (simp add: processMessage_def convertRawAttachments_def)

theorem empty_raw_list_takes_body_branch_witness:
  "processMessageAttachments demo_deps
     (MessageCreatedUpdate (zeroUpdate [])
        \<lparr>Body = \<lparr>Attachments = [], RawAttachments = Some []\<rparr>,
         Link = Some \<lparr>Message = \<lparr>Attachments = [], RawAttachments = Some [''{type:image}'']\<rparr>\<rparr>\<rparr>) =
   Inr (MessageCreatedUpdate (zeroUpdate [])
        \<lparr>Body = \<lparr>Attachments = [], RawAttachments = Some []\<rparr>,
         Link = Some \<lparr>Message = \<lparr>Attachments = [], RawAttachments = Some [''{type:image}'']\<rparr>\<rparr>\<rparr>)"
  using empty_raw_list_takes_body_branch
          [of "\<lparr>Body = \<lparr>Attachments = [], RawAttachments = Some []\<rparr>,
               Link = Some \<lparr>Message = \<lparr>Attachments = [], RawAttachments = Some [''{type:image}'']\<rparr>\<rparr>\<rparr>"
              demo_deps "zeroUpdate []"]
  by simp

text \<open>
  C2, as the code has it. For a message-created or message-edited update whose body
  has a nil raw attachment list and whose link's message has raw attachments that all
  decode, the decoder resolves the link's list and appends the result, in order, to
  the attachment list of the linked message; the body of the message is left as it is.
  When the body has raw attachments of its own, only these are resolved, into the
  body's list, and the link is left as it is.
\<close>

theorem link_attachment_fallback:
  assumes "mk = MessageCreatedUpdate u \<or> mk = MessageEditedUpdate u"
    and "map (bytesToProperAttachment d) raws = map Inr atts"
  shows "(RawAttachments (Body m) = None \<and> Link m = Some l \<and> RawAttachments (Message l) = Some raws \<longrightarrow>
            processMessageAttachments d (mk m) =
              Inr (mk (m\<lparr>Link := Some (l\<lparr>Message :=
                     (Message l)\<lparr>Attachments := Attachments (Message l) @ atts\<rparr>\<rparr>)\<rparr>)))
       \<and> (RawAttachments (Body m) = Some raws \<longrightarrow>
            processMessageAttachments d (mk m) =
              Inr (mk (m\<lparr>Body := (Body m)\<lparr>Attachments := Attachments (Body m) @ atts\<rparr>\<rparr>)))"
  using assms(1) convert_loop_ok [OF assms(2), of "[]"]
  by (auto simp: processMessage_def convertRawAttachments_def)

theorem link_attachment_fallback_witness:
  "processMessageAttachments demo_deps
     (MessageEditedUpdate (zeroUpdate [])
        \<lparr>Body = \<lparr>Attachments = [], RawAttachments = None\<rparr>,
         Link = Some \<lparr>Message = \<lparr>Attachments = [], RawAttachments = Some [''{type:new_widget}'']\<rparr>\<rparr>\<rparr>) =
   Inr (MessageEditedUpdate (zeroUpdate [])
        \<lparr>Body = \<lparr>Attachments = [], RawAttachments = None\<rparr>,
         Link = Some \<lparr>Message = \<lparr>Attachments = [BaseAttachment \<lparr>Type = ''new_widget''\<rparr>],
                                  RawAttachments = Some [''{type:new_widget}'']\<rparr>\<rparr>\<rparr>)"
proof -
  have d: "map (bytesToProperAttachment demo_deps) [''{type:new_widget}''] =
             map Inr [BaseAttachment \<lparr>Type = ''new_widget''\<rparr>]"
    by code_simp
  from link_attachment_fallback
         [of "MessageEditedUpdate (zeroUpdate [])" "zeroUpdate []" demo_deps "[''{type:new_widget}'']"
             "[BaseAttachment \<lparr>Type = ''new_widget''\<rparr>]"
             "\<lparr>Body = \<lparr>Attachments = [], RawAttachments = None\<rparr>,
              Link = Some \<lparr>Message = \<lparr>Attachments = [],
                                       RawAttachments = Some [''{type:new_widget}'']\<rparr>\<rparr>\<rparr>"
             "\<lparr>Message = \<lparr>Attachments = [], RawAttachments = Some [''{type:new_widget}'']\<rparr>\<rparr>", OF _ d]
  show ?thesis by simp
qed

text \<open>
  The claim as the spec states it fails: after the decode of a message-edited update
  with a linked attachment, the body's attachment list is empty and the linked
  message's list holds the resolved attachment.
\<close>

theorem link_fallback_counterexample:
  "bytesToProperUpdate demo_api demo_deps ''{type:message_edited,link:[{type:new_widget}]}'' =
     Inr (MessageEditedUpdate \<lparr>UpdateType = ''message_edited'', DebugRaw = []\<rparr>
            \<lparr>Body = \<lparr>Attachments = [], RawAttachments = None\<rparr>,
             Link = Some \<lparr>Message = \<lparr>Attachments = [BaseAttachment \<lparr>Type = ''new_widget''\<rparr>],
                                      RawAttachments = Some [''{type:new_widget}'']\<rparr>\<rparr>\<rparr>)
   \<and> Attachments \<lparr>Attachments = [], RawAttachments = None\<rparr>
       \<noteq> Attachments \<lparr>Attachments = [BaseAttachment \<lparr>Type = ''new_widget''\<rparr>],
                       RawAttachments = Some [''{type:new_widget}'']\<rparr>"
  by (simp add: bytesToProperUpdate_def demo_deps_def demo_json_def demo_updates_def demo_api_def
      getUpdateType_def demo_update_types_def GetUpdateType_def zeroUpdate_def zeroMessage_def
      processMessage_def convertRawAttachments_def bytesToProperAttachment_def demo_attachments_def
      getAttachmentType_def demo_attachment_types_def GetAttachmentType_def)

text \<open>
  C8, as the code has it. When the envelope and the structure of a message-created or
  message-edited update decode, and some entry of the raw attachment list that is
  resolved (the body's, or the linked message's when the body's is nil) fails to
  decode, then \<^verbatim>\<open>bytesToProperUpdate\<close> returns no update: it returns the decode error
  of the first failing entry, wrapped as a failure to process the attachment and the
  message's attachments. No entry is skipped. That error holds the attachment's type
  when the full decode of a recognised type fails, and neither a type nor a position
  when the envelope of the entry fails to decode.
\<close>

theorem attachment_failure_aborts_update:
  assumes "Unmarshal_Update (js d) data = Inr base"
    and "getUpdateType (upd d) (GetUpdateType base) = Some constructor"
    and "Unmarshal_UpdateInterface (js d) data (constructor (if debug a then data else [])) = Inr (mk m)"
    and "mk = MessageCreatedUpdate u \<or> mk = MessageEditedUpdate u"
    and "RawAttachments (Body m) = Some raws
         \<or> (RawAttachments (Body m) = None \<and> Link m = Some l \<and> RawAttachments (Message l) = Some raws)"
    and "\<exists>raw\<in>set raws. isl (bytesToProperAttachment d raw)"
  shows "\<exists>xs bad ys err.
           raws = xs @ bad # ys \<and> (\<forall>x\<in>set xs. \<not> isl (bytesToProperAttachment d x)) \<and>
           bytesToProperAttachment d bad = Inl err \<and>
           ((\<exists>e. Unmarshal_Attachment (js d) bad = Inl e \<and>
                 err = WrapError ''failed to unmarshal base attachment: '' e)
            \<or> (\<exists>b v e. Unmarshal_Attachment (js d) bad = Inr b \<and>
                 getAttachmentType (att d) (GetAttachmentType b) = Some v \<and>
                 Unmarshal_AttachmentInterface (js d) bad v = Inl e \<and>
                 err = WrapError (''failed to unmarshal attachment of type '' @ GetAttachmentType b @ '': '') e)) \<and>
           bytesToProperUpdate a d data =
             Inl (WrapError ''failed to process message attachments: ''
                   (WrapError ''failed to process attachment: '' err))"
proof -
  from convert_loop_first_failure [OF assms(6), of "[]"] obtain xs bad ys err where
    split: "raws = xs @ bad # ys" and before: "\<forall>x\<in>set xs. \<not> isl (bytesToProperAttachment d x)"
    and err: "bytesToProperAttachment d bad = Inl err"
    and conv: "convertRawAttachments d raws = Inl (WrapError ''failed to process attachment: '' err)"
    by (auto simp: convertRawAttachments_def)
  from assms(5) conv have "processMessage d m = Inl (WrapError ''failed to process attachment: '' err)"
    by (auto simp: processMessage_def)
  with assms(4) have "processMessageAttachments d (mk m) = Inl (WrapError ''failed to process attachment: '' err)"
    by auto
  with assms(1,2,3) have res: "bytesToProperUpdate a d data =
             Inl (WrapError ''failed to process message attachments: ''
                   (WrapError ''failed to process attachment: '' err))"
    by (simp add: bytesToProperUpdate_def Let_def)
  from attachment_error_forms [OF err] split before err res show ?thesis by blast
qed

theorem attachment_failure_aborts_update_witness:
  "bytesToProperUpdate demo_api demo_deps
     ''{type:message_created,attachments:[{type:image},{type:video,url:7}]}'' =
   Inl (WrapError ''failed to process message attachments: ''
         (WrapError ''failed to process attachment: ''
           (WrapError ''failed to unmarshal attachment of type video: '' type_error)))"
proof -
  let ?data = "''{type:message_created,attachments:[{type:image},{type:video,url:7}]}''"
  let ?raws = "[''{type:image}'', ''{type:video,url:7}'']"
  let ?m = "\<lparr>Body = \<lparr>Attachments = [], RawAttachments = Some ?raws\<rparr>, Link = None\<rparr>"
  let ?u = "\<lparr>UpdateType = ''message_created'', DebugRaw = []\<rparr>"
  have 1: "Unmarshal_Update (js demo_deps) ?data = Inr ?u"
    by (simp add: demo_deps_def demo_json_def demo_updates_def)
  have 2: "getUpdateType (upd demo_deps) (GetUpdateType ?u) =
             Some (\<lambda>debugRaw. MessageCreatedUpdate (zeroUpdate debugRaw) zeroMessage)"
    by (simp add: demo_deps_def demo_update_types_def getUpdateType_def GetUpdateType_def)
  have 3: "Unmarshal_UpdateInterface (js demo_deps) ?data
             ((\<lambda>debugRaw. MessageCreatedUpdate (zeroUpdate debugRaw) zeroMessage)
                (if debug demo_api then ?data else [])) = Inr (MessageCreatedUpdate ?u ?m)"
    by (simp add: demo_deps_def demo_json_def demo_updates_def demo_api_def zeroUpdate_def)
  have 5: "RawAttachments (Body ?m) = Some ?raws
         \<or> (RawAttachments (Body ?m) = None \<and> Link ?m = Some \<lparr>Message = Body ?m\<rparr>
              \<and> RawAttachments (Message \<lparr>Message = Body ?m\<rparr>) = Some ?raws)"
    by simp
  have ok: "bytesToProperAttachment demo_deps ''{type:image}'' = Inr (PhotoAttachment \<lparr>Type = ''image''\<rparr>)"
    by code_simp
  have bad: "bytesToProperAttachment demo_deps ''{type:video,url:7}'' =
               Inl (WrapError ''failed to unmarshal attachment of type video: '' type_error)"
    by code_simp
  have 6: "\<exists>raw\<in>set ?raws. isl (bytesToProperAttachment demo_deps raw)"
    using bad by simp
  from attachment_failure_aborts_update [of demo_deps ?data ?u _ demo_api "MessageCreatedUpdate ?u" ?m ?u ?raws
         "\<lparr>Message = Body ?m\<rparr>", OF 1 2 3 _ 5 6]
  obtain xs b ys err where
    split: "?raws = xs @ b # ys" and err: "bytesToProperAttachment demo_deps b = Inl err"
    and res: "bytesToProperUpdate demo_api demo_deps ?data =
             Inl (WrapError ''failed to process message attachments: ''
                   (WrapError ''failed to process attachment: '' err))"
    by auto
  from split have "b \<in> set ?raws"
    by (metis in_set_conv_decomp)
  with err ok have "b = ''{type:video,url:7}''"
    by auto
  with err bad res show ?thesis by simp
qed

text \<open>
  The claim as the spec states it fails: when the envelope of an entry does not decode
  (its discriminator is a number), the error that the decode of the update returns is
  the same whether the first or the second entry of the list is the failing one, and
  its text names no attachment.
\<close>

theorem attachment_error_counterexample:
  "bytesToProperUpdate demo_api demo_deps ''{type:message_created,attachments:[{type:42},{type:image}]}'' =
     Inl (WrapError ''failed to process message attachments: ''
           (WrapError ''failed to process attachment: ''
             (WrapError ''failed to unmarshal base attachment: '' type_error)))
   \<and> bytesToProperUpdate demo_api demo_deps ''{type:message_created,attachments:[{type:image},{type:42}]}'' =
     Inl (WrapError ''failed to process message attachments: ''
           (WrapError ''failed to process attachment: ''
             (WrapError ''failed to unmarshal base attachment: '' type_error)))
   \<and> Error (WrapError ''failed to process message attachments: ''
              (WrapError ''failed to process attachment: ''
                (WrapError ''failed to unmarshal base attachment: '' type_error))) =
     ''failed to process message attachments: failed to process attachment: failed to unmarshal base attachment: json: cannot unmarshal number into Go struct field of type string''"
  by code_simp

section \<open>The fetcher\<close>

lemma fetches_append [simp]: "fetches (tr @ tr') = fetches tr @ fetches tr'"
  by (induction tr rule: fetches.induct) auto

lemma waits_append [simp]: "waits (tr @ tr') = waits tr @ waits tr'"
  by (induction tr rule: waits.induct) auto

lemma calls_append [simp]: "calls (tr @ tr') = calls tr @ calls tr'"
  by (induction tr rule: calls.induct) auto

lemma getUpdates_trace:
  "snd (getUpdates d request ctxErr params) =
      [Call (updates_request d (case params of None \<Rightarrow> zeroParams | Some p \<Rightarrow> p))]
   \<or> (\<exists>closeErr. snd (getUpdates d request ctxErr params) =
      [Call (updates_request d (case params of None \<Rightarrow> zeroParams | Some p \<Rightarrow> p)),
       Printf ''failed to close response body: %v'' [ArgError closeErr]])"
  by (simp add: getUpdates_def Let_def split: sum.splits option.splits)

lemma getUpdates_fetches [simp]: "fetches (snd (getUpdates d request ctxErr params)) = []"
  using getUpdates_trace [of d request ctxErr params] by auto

lemma getUpdates_waits [simp]: "waits (snd (getUpdates d request ctxErr params)) = []"
  using getUpdates_trace [of d request ctxErr params] by auto


text \<open>
  C5. When the transport's error is a \<^verbatim>\<open>*TimeoutError\<close> (anywhere in its chain),
  \<^verbatim>\<open>getUpdates\<close> returns a page with no updates and a nil marker, and a nil error; it
  logs nothing.
\<close>

theorem timeout_is_empty_page:
  "request (updates_request d (case params of None \<Rightarrow> zeroParams | Some p \<Rightarrow> p)) = Inl err \<Longrightarrow>
   errors_As_TimeoutError err \<Longrightarrow>
   getUpdates d request ctxErr params =
     ((Some \<lparr>Updates = [], Marker = None\<rparr>, None),
      [Call (updates_request d (case params of None \<Rightarrow> zeroParams | Some p \<Rightarrow> p))])"
  by (simp add: getUpdates_def Let_def)

theorem timeout_is_empty_page_witness:
  "fst (getUpdates demo_deps
          (\<lambda>req. Inl (WrapError ''Get updates: '' (TimeoutError ''long poll timed out'')))
          (Some DeadlineExceeded) (Some zeroParams)) = (Some \<lparr>Updates = [], Marker = None\<rparr>, None)"
  using timeout_is_empty_page
          [of "\<lambda>req. Inl (WrapError ''Get updates: '' (TimeoutError ''long poll timed out''))"
              demo_deps "Some zeroParams"
              "WrapError ''Get updates: '' (TimeoutError ''long poll timed out'')" "Some DeadlineExceeded"]
  by simp

subsection \<open>Retry with backoff\<close>




lemma retry_loop_fetches [simp]:
  "fetches (snd (retry_loop d request ctxErr waitDone params attempt lastErr)) = []"
proof (induction d request ctxErr waitDone params attempt lastErr rule: retry_loop.induct)
  case (1 d request ctxErr waitDone params attempt lastErr)
  obtain r err tr where g: "getUpdates d (request attempt) (ctxErr attempt) (Some params) = ((r, err), tr)"
    by (metis surj_pair)
  have tr: "fetches tr = []"
    using getUpdates_fetches [of d "request attempt" "ctxErr attempt" "Some params"] g by simp
  show ?case
    using 1 g tr by (subst retry_loop.simps) (auto simp: Let_def split: prod.splits option.splits)
qed


lemma Itoa_5: "Itoa 5 = ''5''"
  by code_simp




subsection \<open>The cursor of the poll loop\<close>

lemma getUpdatesWithRetry_fetches [simp]:
  "fetches (snd (getUpdatesWithRetry d request ctxErr waitDone params)) = []"
  by (simp add: getUpdatesWithRetry_def)

lemma page_loop_fetches [simp]: "fetches (fst (page_loop a d done i raws)) = []"
  by (induction raws arbitrary: i) (auto simp: case_prod_beta split: sum.splits)

lemma page_loop_no_cancel:
  "\<forall>j. \<not> done j \<Longrightarrow> page_loop a d done i raws = (map Send (decoded a d raws), False)"
  by (induction raws arbitrary: i) (auto split: sum.splits)

lemma decoded_append: "decoded a d (xs @ ys) = decoded a d xs @ decoded a d ys"
  by (induction xs) (auto split: sum.splits)

lemma page_loop_calls [simp]: "calls (fst (page_loop a d done i raws)) = []"
  by (induction raws arbitrary: i) (auto simp: case_prod_beta split: sum.splits)

lemma getUpdates_calls_request:
  "set (calls (snd (getUpdates d request ctxErr (Some params)))) = {updates_request d params}"
  using getUpdates_trace [of d request ctxErr "Some params"] by auto

lemma retry_loop_calls_request:
  "r \<in> set (calls (snd (retry_loop d request ctxErr waitDone params attempt lastErr))) \<Longrightarrow>
   r = updates_request d params"
proof (induction "nat (maxRetries (cs d) - int attempt)" arbitrary: attempt lastErr)
  case 0
  then show ?case by (subst (asm) retry_loop.simps) simp
next
  case (Suc n)
  obtain res err tr where g: "getUpdates d (request attempt) (ctxErr attempt) (Some params) = ((res, err), tr)"
    by (metis surj_pair)
  have tr: "set (calls tr) = {updates_request d params}"
    using getUpdates_calls_request [of d "request attempt" "ctxErr attempt" params] g by simp
  have n: "nat (maxRetries (cs d) - int (Suc attempt)) = n"
    using Suc.hyps(2) by simp
  have ih: "r \<in> set (calls (snd (retry_loop d request ctxErr waitDone params (Suc attempt) (Some e)))) \<Longrightarrow>
            r = updates_request d params" for e
    using Suc.hyps(1) [of "Suc attempt" "Some e"] n by simp
  from Suc.prems show ?case
    using g tr ih
    by (subst (asm) retry_loop.simps) (auto simp: Let_def case_prod_beta split: option.splits if_splits)
qed

lemma wire_follows_plain:
  "fetches tr = [] \<Longrightarrow> \<forall>r\<in>set (calls tr). r = updates_request d (poll_params a d m) \<Longrightarrow>
   wire_follows a d m tr"
  by (induction a d m tr rule: wire_follows.induct) auto

lemma wire_follows_append:
  "wire_follows a d m (tr @ tr') \<longleftrightarrow>
     wire_follows a d m tr \<and> wire_follows a d (cursor_after m (fetches tr)) tr'"
  by (induction a d m tr rule: wire_follows.induct) auto

lemma wire_follows_cursor: "wire_follows a d m tr \<Longrightarrow> cursor_follows m (fetches tr)"
  by (induction a d m tr rule: wire_follows.induct) (auto simp: poll_params_def)

lemma drain_wire:
  "wire_follows a d marker (snd (drain a d e n k marker))
   \<and> (fst (fst (drain a d e n k marker)) = Break \<longrightarrow>
        snd (snd (fst (drain a d e n k marker))) =
          cursor_after marker (fetches (snd (drain a d e n k marker))))"
proof (induction n arbitrary: k marker)
  case 0
  show ?case by simp
next
  case (Suc n)
  define params where "params = \<lparr>Limit = maxUpdatesLimit (cs d), Timeout = timeout a,
                    params_Marker = marker, Types = []\<rparr>"
  have pp: "params = poll_params a d marker"
    by (simp add: params_def poll_params_def)
  obtain r err tr where g:
    "getUpdatesWithRetry d (transport e k) (ctx_Err e k) (wait_done e k) (Some params) = ((r, err), tr)"
    by (metis surj_pair)
  have tr: "fetches tr = []"
    using getUpdatesWithRetry_fetches [of d "transport e k" "ctx_Err e k" "wait_done e k" "Some params"] g
    by simp
  have "\<forall>x\<in>set (calls tr). x = updates_request d params"
    using retry_loop_calls_request [of _ d "transport e k" "ctx_Err e k" "wait_done e k" params 0 None] g
    by (auto simp: getUpdatesWithRetry_def)
  with tr have wtr: "wire_follows a d marker tr"
    by (simp add: wire_follows_plain pp)
  show ?case
  proof (cases err)
    case (Some er)
    then show ?thesis using g tr wtr
      by (cases r) (simp_all add: params_def [symmetric] pp [symmetric] adopt_def wire_follows_append)
  next
    case None
    note eNone = this
    show ?thesis
    proof (cases r)
      case None
      then show ?thesis using g tr wtr eNone
        by (simp add: params_def [symmetric] pp [symmetric] adopt_def wire_follows_append)
    next
      case (Some page)
      show ?thesis
      proof (cases "Updates page = []")
        case True
        then show ?thesis using g tr wtr eNone Some
          by (simp add: params_def [symmetric] pp [symmetric] adopt_def wire_follows_append)
      next
        case False
        obtain ss c where pl: "page_loop a d (send_done e k) 0 (Updates page) = (ss, c)"
          by (metis surj_pair)
        have ss: "fetches ss = []"
          using page_loop_fetches [of a d "send_done e k" 0 "Updates page"] pl by simp
        have cs: "calls ss = []"
          using page_loop_calls [of a d "send_done e k" 0 "Updates page"] pl by simp
        have wss: "wire_follows a d m ss" for m
          using ss cs by (simp add: wire_follows_plain)
        show ?thesis
        proof (cases c)
          case True
          then show ?thesis using g tr wtr eNone Some False pl ss wss
            by (simp add: params_def [symmetric] pp [symmetric] adopt_def wire_follows_append)
        next
          case cF: False
          let ?m = "case Marker page of Some m \<Rightarrow> m | None \<Rightarrow> marker"
          have ad: "adopt marker (Some page) None = ?m" using False by (simp add: adopt_def)
          from Suc.IH [of ?m "Suc k"] show ?thesis
            using g tr wtr eNone Some False pl ss wss cF ad
            by (simp add: params_def [symmetric] pp [symmetric] case_prod_beta wire_follows_append)
        qed
      qed
    qed
  qed
qed

lemma ticker_wire:
  "wire_follows a d marker (snd (ticker_loop a d e pages n t k marker))"
proof (induction n arbitrary: t k marker)
  case 0
  show ?case by simp
next
  case (Suc n)
  obtain x k' marker' tr where dr: "drain a d e pages k marker = ((x, k', marker'), tr)"
    by (metis surj_pair)
  from drain_wire [of a d marker e pages k] dr
  have c: "wire_follows a d marker tr"
    and b: "x = Break \<Longrightarrow> marker' = cursor_after marker (fetches tr)" by auto
  show ?case
  proof (cases "tick_done e t")
    case True
    then show ?thesis by simp
  next
    case False
    show ?thesis
    proof (cases "x = Break")
      case True
      with False dr c b Suc.IH [of marker' "Suc t" k'] show ?thesis
        by (simp add: case_prod_beta wire_follows_append)
    next
      case nb: False
      with False dr c show ?thesis by (cases x) simp_all
    qed
  qed
qed

lemma GetUpdates_wire: "wire_follows a d 0 (snd (GetUpdates a d e ticks pages))"
  using ticker_wire [of a d 0 e pages ticks 0 0]
  by (simp add: GetUpdates_def case_prod_beta wire_follows_append)

lemma cursor_sorted:
  "cursor_follows m fs \<Longrightarrow> never_behind fs \<Longrightarrow>
   sorted (requested_markers fs) \<and> (\<forall>x\<in>set (requested_markers fs). m \<le> x)"
proof (induction m fs rule: cursor_follows.induct)
  case (1 marker)
  then show ?case by simp
next
  case (2 marker p r err rest)
  have le: "marker \<le> adopt marker r err"
    using 2(2,3) by (auto simp: adopt_def split: option.splits)
  from 2 have "sorted (requested_markers rest) \<and> (\<forall>x\<in>set (requested_markers rest). adopt marker r err \<le> x)"
    by auto
  with le 2(2) show ?case by fastforce
qed

lemma marker_query:
  "0 < m \<Longrightarrow>
   map_of (query (updates_request d (poll_params a d m))) (paramMarker (cs d)) = Some [Itoa m]"
  "m \<le> 0 \<Longrightarrow> paramMarker (cs d) \<noteq> paramLimit (cs d) \<Longrightarrow> paramMarker (cs d) \<noteq> paramTimeout (cs d) \<Longrightarrow>
   map_of (query (updates_request d (poll_params a d m))) (paramMarker (cs d)) = None"
  by (simp_all add: updates_request_def updates_values_def poll_params_def Let_def Values_Set_def
      update_conv')

text \<open>
  C1, as the code has it. In every run of the poll loop, every request to the
  transport is the one built from the loop's parameters with the cursor as it stands,
  so that it carries the cursor as its marker parameter when the cursor is positive
  and no marker parameter otherwise. The cursor starts at zero; after a fetch it is
  the marker the server returned when the page has updates and a marker, whatever that
  marker is (it is not compared with the cursor), and is unchanged otherwise (a failed
  fetch, a page with no updates, a page without a marker). When three fetches in a row
  answer pages with the markers 5, none and 9 (the first and the third with updates),
  the fetches after them are made with 5, 5 and 9. The markers sent never decrease if
  the server never returns a marker behind the one it was asked with.
\<close>

theorem cursor_follows_server_marker:
  "wire_follows a d 0 (snd (GetUpdates a d e ticks pages))
   \<and> (0 < m \<longrightarrow>
        map_of (query (updates_request d (poll_params a d m))) (paramMarker (cs d)) = Some [Itoa m])
   \<and> (m \<le> 0 \<and> paramMarker (cs d) \<noteq> paramLimit (cs d) \<and> paramMarker (cs d) \<noteq> paramTimeout (cs d) \<longrightarrow>
        map_of (query (updates_request d (poll_params a d m))) (paramMarker (cs d)) = None)
   \<and> cursor_follows 0 (fetches (snd (GetUpdates a d e ticks pages)))
   \<and> (never_behind (fetches (snd (GetUpdates a d e ticks pages))) \<longrightarrow>
        sorted (requested_markers (fetches (snd (GetUpdates a d e ticks pages)))))
   \<and> (\<forall>p0 p1 p2 p3 u0 u1 u2 r3 rest.
        fetches (snd (GetUpdates a d e ticks pages)) =
          (p0, Some u0, None) # (p1, Some u1, None) # (p2, Some u2, None) # (p3, r3) # rest \<and>
        Updates u0 \<noteq> [] \<and> Updates u2 \<noteq> [] \<and>
        Marker u0 = Some 5 \<and> Marker u1 = None \<and> Marker u2 = Some 9 \<longrightarrow>
        params_Marker p0 = 0 \<and> params_Marker p1 = 5 \<and> params_Marker p2 = 5 \<and> params_Marker p3 = 9)"
proof (intro conjI allI impI)
  show w: "wire_follows a d 0 (snd (GetUpdates a d e ticks pages))"
    by (rule GetUpdates_wire)
  show "map_of (query (updates_request d (poll_params a d m))) (paramMarker (cs d)) = Some [Itoa m]"
    if "0 < m"
    using that by (rule marker_query)
  show "map_of (query (updates_request d (poll_params a d m))) (paramMarker (cs d)) = None"
    if "m \<le> 0 \<and> paramMarker (cs d) \<noteq> paramLimit (cs d) \<and> paramMarker (cs d) \<noteq> paramTimeout (cs d)"
    using that by (simp add: marker_query)
  show c: "cursor_follows 0 (fetches (snd (GetUpdates a d e ticks pages)))"
    using w by (rule wire_follows_cursor)
  show "sorted (requested_markers (fetches (snd (GetUpdates a d e ticks pages))))"
    if "never_behind (fetches (snd (GetUpdates a d e ticks pages)))"
    using cursor_sorted [OF c that] by simp
  fix p0 p1 p2 p3 u0 u1 u2 r3 rest
  assume h: "fetches (snd (GetUpdates a d e ticks pages)) =
          (p0, Some u0, None) # (p1, Some u1, None) # (p2, Some u2, None) # (p3, r3) # rest \<and>
        Updates u0 \<noteq> [] \<and> Updates u2 \<noteq> [] \<and>
        Marker u0 = Some 5 \<and> Marker u1 = None \<and> Marker u2 = Some 9"
  with c have "cursor_follows 0
      ((p0, Some u0, None) # (p1, Some u1, None) # (p2, Some u2, None) # (p3, r3) # rest)"
    by simp
  with h show "params_Marker p0 = 0" "params_Marker p1 = 5" "params_Marker p2 = 5" "params_Marker p3 = 9"
    by (cases r3; simp add: adopt_def)+
qed

theorem cursor_follows_server_marker_witness:
  "wire_markers demo_deps (snd (GetUpdates demo_api demo_deps demo_env 2 5)) =
     [None, Some [''5''], Some [''5''], Some [''9'']]
   \<and> map_of (query (updates_request demo_deps (poll_params demo_api demo_deps 5))) ''marker'' = Some [''5'']
   \<and> never_behind (fetches (snd (GetUpdates demo_api demo_deps demo_env 2 5)))
   \<and> sorted (requested_markers (fetches (snd (GetUpdates demo_api demo_deps demo_env 2 5))))
   \<and> requested_markers (fetches (snd (GetUpdates demo_api demo_deps demo_env 2 5))) = [0, 5, 5, 9]"
proof -
  let ?fs = "fetches (snd (GetUpdates demo_api demo_deps demo_env 2 5))"
  note inst = cursor_follows_server_marker [of demo_api demo_deps demo_env 2 5 5]
  have wm: "wire_markers demo_deps (snd (GetUpdates demo_api demo_deps demo_env 2 5)) =
     [None, Some [''5''], Some [''5''], Some [''9'']]"
    by code_simp
  have pn: "paramMarker (cs demo_deps) = ''marker''"
    by (simp add: demo_deps_def demo_constants_def)
  from inst have "map_of (query (updates_request demo_deps (poll_params demo_api demo_deps 5)))
                   (paramMarker (cs demo_deps)) = Some [Itoa 5]"
    by simp
  then have q: "map_of (query (updates_request demo_deps (poll_params demo_api demo_deps 5))) ''marker'' =
                  Some [''5'']"
    by (simp add: pn Itoa_5)
  have f: "?fs =
      (demo_params 0, Some \<lparr>Updates = [''{type:message_created}''], Marker = Some 5\<rparr>, None) #
      (demo_params 5, Some \<lparr>Updates = [''{type:message_created}'', ''{type:totally_unknown}'',
                                        ''{type:bot_started}''], Marker = None\<rparr>, None) #
      (demo_params 5, Some \<lparr>Updates = [''{type:bot_started}''], Marker = Some 9\<rparr>, None) #
      (demo_params 9, Some \<lparr>Updates = [], Marker = None\<rparr>, None) # []"
    by code_simp
  have nb: "never_behind ?fs"
    by (simp add: f demo_params_def)
  from inst nb have s: "sorted (requested_markers ?fs)" by blast
  from inst
  have "\<forall>p0 p1 p2 p3 u0 u1 u2 r3 rest.
        ?fs = (p0, Some u0, None) # (p1, Some u1, None) # (p2, Some u2, None) # (p3, r3) # rest \<and>
        Updates u0 \<noteq> [] \<and> Updates u2 \<noteq> [] \<and>
        Marker u0 = Some 5 \<and> Marker u1 = None \<and> Marker u2 = Some 9 \<longrightarrow>
        params_Marker p0 = 0 \<and> params_Marker p1 = 5 \<and> params_Marker p2 = 5 \<and> params_Marker p3 = 9"
    by blast
  from this [rule_format, of "demo_params 0" "\<lparr>Updates = [''{type:message_created}''], Marker = Some 5\<rparr>"
      "demo_params 5" "\<lparr>Updates = [''{type:message_created}'', ''{type:totally_unknown}'',
                                        ''{type:bot_started}''], Marker = None\<rparr>"
      "demo_params 5" "\<lparr>Updates = [''{type:bot_started}''], Marker = Some 9\<rparr>"
      "demo_params 9" "(Some \<lparr>Updates = [], Marker = None\<rparr>, None)" "[]"] f
  have v: "params_Marker (demo_params 0) = 0 \<and> params_Marker (demo_params 5) = 5
          \<and> params_Marker (demo_params 5) = 5 \<and> params_Marker (demo_params 9) = 9"
    by simp
  have "requested_markers ?fs =
          [params_Marker (demo_params 0), params_Marker (demo_params 5),
           params_Marker (demo_params 5), params_Marker (demo_params 9)]"
    by (simp add: f)
  with v have "requested_markers ?fs = [0, 5, 5, 9]"
    by simp
  with wm q nb s show ?thesis by simp
qed

text \<open>
  The claim as the spec states it fails: against a server that answers a page with the
  marker 9 and then a page with the marker 5, the loop asks with no marker, then with
  9, then with 5: the cursor moves back.
\<close>

theorem cursor_moves_back_counterexample:
  "requested_markers (fetches (snd (GetUpdates demo_api demo_deps back_env 2 5))) = [0, 9, 5]
   \<and> wire_markers demo_deps (snd (GetUpdates demo_api demo_deps back_env 2 5)) =
       [None, Some [''9''], Some [''5'']]
   \<and> \<not> sorted (requested_markers (fetches (snd (GetUpdates demo_api demo_deps back_env 2 5))))"
  by code_simp

subsection \<open>Items of a page that do not decode\<close>

text \<open>
  C3, as the code has it. When a fetch of the poll loop returns a page that holds an
  item whose envelope decodes to a type that is none of the ten update types, and no
  send is cut short by the context, then the item fails to decode with the error
  \<^verbatim>\<open>unknown update type\<close>, and the loop does exactly this between the fetch and the
  next one: it sends the updates that the items before and after the unknown one
  decode to, in the order of the page. It prints no log line for the item, and it goes
  on to the next fetch of the drain.
\<close>

theorem unknown_update_is_skipped:
  assumes "getUpdatesWithRetry d (transport e k) (ctx_Err e k) (wait_done e k) (Some params) =
             ((Some page, None), tr)"
    and "params = \<lparr>Limit = maxUpdatesLimit (cs d), Timeout = timeout a,
                   params_Marker = marker, Types = []\<rparr>"
    and "Updates page = xs @ bad # ys"
    and "Unmarshal_Update (js d) bad = Inr base"
    and "GetUpdateType base \<notin> set (known_update_types (upd d))"
    and "\<forall>i. \<not> send_done e k i"
  shows "bytesToProperUpdate a d bad = Inl (ErrorString (''unknown update type: '' @ GetUpdateType base))
    \<and> drain a d e (Suc n) k marker =
        (case drain a d e n (Suc k) (case Marker page of Some m \<Rightarrow> m | None \<Rightarrow> marker) of
           (r, tr') \<Rightarrow>
             (r, tr @ [Fetch params (Some page) None]
                    @ map Send (decoded a d xs @ decoded a d ys) @ tr'))"
proof
  from assms(5) have none: "getUpdateType (upd d) (GetUpdateType base) = None"
    by (simp add: getUpdateType_None_iff)
  with assms(4) show bad: "bytesToProperUpdate a d bad =
      Inl (ErrorString (''unknown update type: '' @ GetUpdateType base))"
    by (simp add: bytesToProperUpdate_def Let_def)
  have dec: "decoded a d (Updates page) = decoded a d xs @ decoded a d ys"
    using assms(3) bad by (simp add: decoded_append)
  have pl: "page_loop a d (send_done e k) 0 (Updates page) = (map Send (decoded a d (Updates page)), False)"
    using assms(6) by (rule page_loop_no_cancel)
  have ne: "Updates page \<noteq> []"
    using assms(3) by simp
  show "drain a d e (Suc n) k marker =
        (case drain a d e n (Suc k) (case Marker page of Some m \<Rightarrow> m | None \<Rightarrow> marker) of
           (r, tr') \<Rightarrow>
             (r, tr @ [Fetch params (Some page) None]
                    @ map Send (decoded a d xs @ decoded a d ys) @ tr'))"
    using assms(1) ne pl dec by (simp add: assms(2) [symmetric])
qed

theorem unknown_update_is_skipped_witness:
  "bytesToProperUpdate demo_api demo_deps ''{type:totally_unknown}'' =
     Inl (ErrorString ''unknown update type: totally_unknown'')
   \<and> sends (snd (drain demo_api demo_deps demo_env 1 1 5)) = [created, started]"
proof -
  let ?page = "\<lparr>Updates = [''{type:message_created}'', ''{type:totally_unknown}'', ''{type:bot_started}''],
                Marker = None\<rparr>"
  let ?params = "\<lparr>Limit = maxUpdatesLimit (cs demo_deps), Timeout = timeout demo_api,
                   params_Marker = 5, Types = []\<rparr>"
  let ?tr = "[Call (updates_request demo_deps ?params)]"
  let ?base = "\<lparr>UpdateType = ''totally_unknown'', DebugRaw = []\<rparr>"
  have 1: "getUpdatesWithRetry demo_deps (transport demo_env 1) (ctx_Err demo_env 1) (wait_done demo_env 1)
             (Some ?params) = ((Some ?page, None), ?tr)"
    by code_simp
  have 3: "Updates ?page = [''{type:message_created}''] @ ''{type:totally_unknown}'' # [''{type:bot_started}'']"
    by simp
  have 4: "Unmarshal_Update (js demo_deps) ''{type:totally_unknown}'' = Inr ?base"
    by (simp add: demo_deps_def demo_json_def demo_updates_def)
  have 5: "GetUpdateType ?base \<notin> set (known_update_types (upd demo_deps))"
    by (simp add: GetUpdateType_def known_update_types_def demo_deps_def demo_update_types_def)
  have 6: "\<forall>i. \<not> send_done demo_env 1 i"
    by (simp add: demo_env_def)
  have da: "decoded demo_api demo_deps [''{type:message_created}''] = [created]"
    by code_simp
  have db: "decoded demo_api demo_deps [''{type:bot_started}''] = [started]"
    by code_simp
  have s0: "sends (snd (drain demo_api demo_deps demo_env 0 2 5)) = []"
    by simp
  from unknown_update_is_skipped [OF 1 refl 3 4 5 6, of 0]
  show ?thesis using da db s0 by (simp add: GetUpdateType_def case_prod_beta)
qed

text \<open>
  The claim as the spec states it fails: in a run whose second page holds an item of
  type \<^verbatim>\<open>totally_unknown\<close> between two valid ones, the two valid updates of that page
  are sent, and the run prints no log line at all.
\<close>

theorem unknown_update_counterexample:
  "fetched_pages (fetches (snd (GetUpdates demo_api demo_deps demo_env 2 5))) =
     [[''{type:message_created}''],
      [''{type:message_created}'', ''{type:totally_unknown}'', ''{type:bot_started}''],
      [''{type:bot_started}''], []]
   \<and> sends (snd (GetUpdates demo_api demo_deps demo_env 2 5)) = [created, created, started, started]
   \<and> log_lines (snd (GetUpdates demo_api demo_deps demo_env 2 5)) = []"
  by code_simp

section \<open>The webhook handler\<close>

text \<open>
  C6, as the code has it. The handler answers 405 to a request whose method is not
  POST, 400 when the body cannot be read or does not decode, 503 when the update
  decodes and the channel has neither room nor a waiting receiver, and 200 when the
  update decodes and the send goes through. The channel is changed in the last case
  only: the update is appended to the buffer, or handed to a waiting receiver. The
  send never blocks.
\<close>

theorem webhook_statuses:
  "(Method r \<noteq> MethodPost \<longrightarrow>
      GetHandler a d updates r = (http_Error ''Method not allowed'' 405, updates))
   \<and> (Method r = MethodPost \<longrightarrow> RequestBody r = Inl err \<longrightarrow>
      GetHandler a d updates r = (http_Error ''Failed to read request body'' 400, updates))
   \<and> (Method r = MethodPost \<longrightarrow> RequestBody r = Inr body \<longrightarrow> bytesToProperUpdate a d body = Inl err \<longrightarrow>
      GetHandler a d updates r = (http_Error ''Failed to parse update'' 400, updates))
   \<and> (Method r = MethodPost \<longrightarrow> RequestBody r = Inr body \<longrightarrow> bytesToProperUpdate a d body = Inr update \<longrightarrow>
      recvq updates = 0 \<longrightarrow> cap updates \<le> length (buf updates) \<longrightarrow>
      GetHandler a d updates r = (http_Error ''Updates channel is full'' 503, updates))
   \<and> (Method r = MethodPost \<longrightarrow> RequestBody r = Inr body \<longrightarrow> bytesToProperUpdate a d body = Inr update \<longrightarrow>
      recvq updates = 0 \<longrightarrow> length (buf updates) < cap updates \<longrightarrow>
      GetHandler a d updates r = (\<lparr>status = 200, text_of = []\<rparr>, updates\<lparr>buf := buf updates @ [update]\<rparr>))
   \<and> (Method r = MethodPost \<longrightarrow> RequestBody r = Inr body \<longrightarrow> bytesToProperUpdate a d body = Inr update \<longrightarrow>
      0 < recvq updates \<longrightarrow>
      GetHandler a d updates r =
        (\<lparr>status = 200, text_of = []\<rparr>,
         updates\<lparr>recvq := recvq updates - 1, handed := handed updates @ [update]\<rparr>))"
  by (simp add: GetHandler_def try_send_def StatusOK_def StatusBadRequest_def
      StatusMethodNotAllowed_def StatusServiceUnavailable_def)

theorem webhook_statuses_witness:
  "GetHandler demo_api demo_deps full_chan \<lparr>Method = ''POST'', RequestBody = Inr ''{type:bot_started}''\<rparr> =
     (http_Error ''Updates channel is full'' 503, full_chan)
   \<and> GetHandler demo_api demo_deps (full_chan\<lparr>cap := 2\<rparr>)
        \<lparr>Method = ''POST'', RequestBody = Inr ''{type:bot_started}''\<rparr> =
     (\<lparr>status = 200, text_of = []\<rparr>, full_chan\<lparr>cap := 2, buf := [created, started]\<rparr>)"
proof -
  let ?r = "\<lparr>Method = ''POST'', RequestBody = Inr ''{type:bot_started}''\<rparr>"
  have m: "Method ?r = MethodPost" by (simp add: MethodPost_def)
  have b: "RequestBody ?r = Inr ''{type:bot_started}''" by simp
  have u: "bytesToProperUpdate demo_api demo_deps ''{type:bot_started}'' = Inr started"
    by code_simp
  have full: "recvq full_chan = 0" "cap full_chan \<le> length (buf full_chan)"
    by (simp_all add: full_chan_def)
  have room: "recvq (full_chan\<lparr>cap := 2\<rparr>) = 0"
    "length (buf (full_chan\<lparr>cap := 2\<rparr>)) < cap (full_chan\<lparr>cap := 2\<rparr>)"
    by (simp_all add: full_chan_def)
  from webhook_statuses [of ?r demo_api demo_deps full_chan _ "''{type:bot_started}''" started] m b u full
  have 1: "GetHandler demo_api demo_deps full_chan ?r = (http_Error ''Updates channel is full'' 503, full_chan)"
    by blast
  from webhook_statuses [of ?r demo_api demo_deps "full_chan\<lparr>cap := 2\<rparr>" _ "''{type:bot_started}''" started]
    m b u room
  have "GetHandler demo_api demo_deps (full_chan\<lparr>cap := 2\<rparr>) ?r =
     (\<lparr>status = 200, text_of = []\<rparr>,
      full_chan\<lparr>cap := 2, buf := buf (full_chan\<lparr>cap := 2\<rparr>) @ [started]\<rparr>)"
    by simp
  with 1 show ?thesis by (simp add: full_chan_def)
qed

text \<open>
  The claim as the spec states it fails: a GET request is answered with 405, not
  with 400.
\<close>

theorem webhook_wrong_method_counterexample:
  "status (fst (GetHandler demo_api demo_deps full_chan
                  \<lparr>Method = ''GET'', RequestBody = Inr ''{type:bot_started}''\<rparr>)) = 405
   \<and> status (fst (GetHandler demo_api demo_deps full_chan
                  \<lparr>Method = ''GET'', RequestBody = Inr ''{type:bot_started}''\<rparr>)) \<noteq> StatusBadRequest"
  by (simp add: GetHandler_def MethodPost_def http_Error_def StatusMethodNotAllowed_def StatusBadRequest_def)

section \<open>The low-level send\<close>

text \<open>
  C9. When the request of \<^verbatim>\<open>sendMessage\<close> succeeds and decoding the response into
  the error envelope fails (the body cannot be read, or is not the JSON of an
  envelope), the function returns nil: the decode error is not returned.
\<close>

theorem send_masks_decode_error:
  "request (message_request d r chatID userID message) = Inr body \<Longrightarrow>
   (case ReadAll body of Inl e \<Rightarrow> Inl e | Inr data \<Rightarrow> Decode_Error (js d) data) = Inl err \<Longrightarrow>
   fst (sendMessage d request r chatID userID message) = None"
  by (simp add: sendMessage_def Let_def)

theorem send_masks_decode_error_witness:
  "fst (sendMessage demo_deps (\<lambda>req. Inr (ok_body ''<html>502 Bad Gateway</html>'')) False 7 0
          \<lparr>Text = ''hello''\<rparr>) = None"
  using send_masks_decode_error
          [of "\<lambda>req. Inr (ok_body ''<html>502 Bad Gateway</html>'')" demo_deps False 7 0
              "\<lparr>Text = ''hello''\<rparr>" "ok_body ''<html>502 Bad Gateway</html>''" syntax_error]
  by (simp add: ok_body_def demo_deps_def demo_json_def)

end
